theory Spec2Isabelle
  imports
    Complex_Main
    "HOL-Library.Sublist"
    "HOL-Library.FSet"
    "HOL-Library.Char_ord"
    "HOL-Library.List_Lexorder"
begin

section \<open>The AxonPuls Python client: circuit breaker, session and reconnection\<close>

text \<open>
  A shallow embedding of \<^verbatim>\<open>apix_client/client.py\<close>, \<^verbatim>\<open>types.py\<close> and
  \<^verbatim>\<open>errors.py\<close>. Conventions:
  \<^item> a point in time (\<^verbatim>\<open>datetime.now()\<close>) is an \<open>int\<close>, the number of microseconds since
    some epoch (the resolution of \<^verbatim>\<open>datetime\<close>); every function that reads the clock
    takes the value it reads as an argument;
  \<^item> a method that mutates \<^verbatim>\<open>self\<close> takes the object and returns the new one; a method
    that can raise returns \<open>error option\<close> beside it (\<open>None\<close>: it returned normally);
  \<^item> the outcome of an awaited transport call is an argument (\<open>io_result\<close>).
\<close>

subsection \<open>Circuit breaker (client.py, lines 35 to 74)\<close>

datatype CircuitState = CLOSED | OPEN | HALF_OPEN

record CircuitBreaker =
  failure_threshold :: int
  timeout_seconds :: int
  failure_count :: int
  state :: CircuitState
  last_failure_time :: "int option"

text \<open>The dataclass constructor: the last three fields always start at their defaults.\<close>

definition new_CircuitBreaker :: "int \<Rightarrow> int \<Rightarrow> CircuitBreaker" where
  "new_CircuitBreaker threshold timeout =
     \<lparr>failure_threshold = threshold, timeout_seconds = timeout, failure_count = 0,
      state = CLOSED, last_failure_time = None\<rparr>"

text \<open>\<^verbatim>\<open>CircuitBreaker()\<close>, as the client builds it: threshold 5, cooldown 60 seconds.\<close>

definition default_CircuitBreaker :: CircuitBreaker where
  "default_CircuitBreaker = new_CircuitBreaker 5 60"

definition record_success :: "CircuitBreaker \<Rightarrow> CircuitBreaker" where
  "record_success cb =
     (let cb1 = cb\<lparr>failure_count := 0\<rparr>
      in if state cb1 = HALF_OPEN then cb1\<lparr>state := CLOSED\<rparr> else cb1)"

definition record_failure :: "int \<Rightarrow> CircuitBreaker \<Rightarrow> CircuitBreaker" where
  "record_failure now cb =
     (let cb1 = cb\<lparr>failure_count := failure_count cb + 1, last_failure_time := Some now\<rparr>
      in if failure_count cb1 \<ge> failure_threshold cb1 then cb1\<lparr>state := OPEN\<rparr> else cb1)"

text \<open>\<^verbatim>\<open>timedelta(seconds=n)\<close> in microseconds.\<close>

definition timedelta_seconds :: "int \<Rightarrow> int" where
  "timedelta_seconds n = n * 1000000"

text \<open>\<^verbatim>\<open>can_attempt\<close> returns its answer and, as it may move OPEN to HALF_OPEN, the breaker.\<close>

definition can_attempt :: "int \<Rightarrow> CircuitBreaker \<Rightarrow> bool \<times> CircuitBreaker" where
  "can_attempt now cb =
     (case state cb of
        CLOSED \<Rightarrow> (True, cb)
      | OPEN \<Rightarrow>
          (case last_failure_time cb of
             Some t \<Rightarrow>
               if now - t > timedelta_seconds (timeout_seconds cb)
               then (True, cb\<lparr>state := HALF_OPEN\<rparr>)
               else (False, cb)
           | None \<Rightarrow> (False, cb))
      | HALF_OPEN \<Rightarrow> (True, cb))"

text \<open>Consecutive \<^verbatim>\<open>record_failure()\<close> calls, one at each of the given clock readings.\<close>

fun record_failures :: "int list \<Rightarrow> CircuitBreaker \<Rightarrow> CircuitBreaker" where
  "record_failures [] cb = cb"
| "record_failures (t # ts) cb = record_failures ts (record_failure t cb)"

subsection \<open>Errors (errors.py) and types (types.py)\<close>

datatype error_class =
    AxonPulsError
  | AxonPulsConnectionError
  | AxonPulsAuthenticationError
  | AxonPulsValidationError
  | AxonPulsTenantIsolationError
  | AxonPulsRateLimitError
  | AxonPulsCircuitBreakerError

text \<open>
  The message of a raised error: which of the client's f-strings it is, with the values
  the f-string interpolates.
  \<^item> \<open>CircuitBreakerOpen w\<close>: \<^verbatim>\<open>"Circuit breaker open. Retry after {wait_time}s"\<close>;
  \<^item> \<open>ConnectionFailed\<close>: \<^verbatim>\<open>"Connection failed: {e}"\<close>;
  \<^item> \<open>NotConnected\<close>: \<^verbatim>\<open>"Not connected to AxonPuls gateway"\<close>;
  \<^item> \<open>SendFailed\<close>: \<^verbatim>\<open>"Failed to send message: {e}"\<close>;
  \<^item> \<open>MaxChannelsExceeded m\<close>: \<^verbatim>\<open>"Maximum channel subscriptions ({MAX_CHANNELS}) exceeded"\<close>;
  \<^item> \<open>ChannelNotInOrganization ch p\<close>: \<^verbatim>\<open>"Channel '{channel}' not in your organization. Use format: {expected_prefix}<channel_name>"\<close>;
  \<^item> \<open>PayloadTooLarge n m\<close>: \<^verbatim>\<open>"Payload size ({size} bytes) exceeds maximum ({MAX_PAYLOAD_BYTES} bytes)"\<close>;
  \<^item> \<open>InvalidPayload\<close>: \<^verbatim>\<open>"Invalid payload: {e}"\<close>;
  \<^item> \<open>MissingOrganizationId\<close>: \<^verbatim>\<open>"Token must contain organizationId claim for multi-tenancy"\<close>.
\<close>

datatype error_message =
    CircuitBreakerOpen int
  | ConnectionFailed
  | NotConnected
  | SendFailed
  | MaxChannelsExceeded nat
  | ChannelNotInOrganization string string
  | PayloadTooLarge nat nat
  | InvalidPayload
  | MissingOrganizationId

type_synonym error = "error_class \<times> error_message"

datatype ConnectionState = DISCONNECTED | CONNECTING | CONNECTED | RECONNECTING

record AxonPulsClientConfig =
  url :: string
  token :: string
  client_type :: "string option"
  auto_reconnect :: bool
  heartbeat_interval :: "int option"
  reconnect_attempts :: "int option"
  debug :: bool

record SubscribeOptions =
  replay_from :: "string option"
  replay_count :: "int option"
  filter' :: "string option"

record PublishOptions =
  delivery_guarantee :: "string option"
  partition_key :: "string option"

subsection \<open>What the client exchanges with its environment\<close>

text \<open>
  A payload is an arbitrary Python object; the client only ever passes it to
  \<^verbatim>\<open>json.dumps\<close>. It is modelled by what \<^verbatim>\<open>json.dumps\<close> does with it: \<open>Payload s\<close> when
  it returns the JSON text \<open>s\<close>, \<open>NotSerializable\<close> when it raises \<^verbatim>\<open>TypeError\<close> or
  \<^verbatim>\<open>ValueError\<close>. With the default \<^verbatim>\<open>ensure_ascii=True\<close> the text is ASCII, so its UTF-8
  encoding has one byte per character and \<open>length s\<close> is \<^verbatim>\<open>len(payload_json.encode('utf-8'))\<close>.
\<close>

datatype payload = Payload string | NotSerializable

text \<open>
  The envelopes the client sends, without the generated \<^verbatim>\<open>id\<close> and the \<^verbatim>\<open>timestamp\<close>:
  \<open>SubscribeMessage channels options\<close>, \<open>UnsubscribeMessage channels\<close>,
  \<open>PublishMessage channel event_type payload correlation_id options\<close> (with the
  correlation id as the caller gave it; the client generates one when there is none),
  \<open>ReplayMessage channel since_id count\<close> and the ping.
\<close>

datatype message =
    SubscribeMessage "string list" "SubscribeOptions option"
  | UnsubscribeMessage "string list"
  | PublishMessage string string payload "string option" "PublishOptions option"
  | ReplayMessage string "string option" int
  | PingMessage

text \<open>
  The calls made on the transport, in order: \<^verbatim>\<open>websockets.connect(...)\<close>,
  \<^verbatim>\<open>websocket.send(...)\<close> and \<^verbatim>\<open>websocket.close()\<close>. A call is recorded whether it
  succeeds or raises.
\<close>

datatype effect = WsConnect | WsSend message | WsClose

text \<open>
  The outcome of an awaited transport call: it returns, or it raises; \<open>Raises t\<close> carries
  the clock reading \<open>t\<close> that the client's handler takes when it stamps the failure.
\<close>

datatype io_result = Succeeds | Raises int

text \<open>
  The asyncio tasks the client creates, in creation order; a task is named by its index.
  \<^verbatim>\<open>asyncio.create_task\<close> appends a task, \<^verbatim>\<open>task.cancel()\<close> marks it cancelled. That a
  task's coroutine has returned is not stored here: it is the result of the function that
  models the coroutine.
\<close>

datatype task_kind = MessageHandlerTask | HeartbeatTask | ReconnectTask

datatype task_status = Scheduled | Cancelled

subsection \<open>The client object (client.py, lines 77 to 113)\<close>

text \<open>
  The attributes of \<^verbatim>\<open>AxonPulsClient\<close>. \<open>websocket\<close> and \<open>http_session\<close> say whether the
  attribute holds an object (\<open>True\<close>) or \<^verbatim>\<open>None\<close>. \<open>tasks\<close> and \<open>effects\<close> are the task
  table and the transport calls made so far. Left out: \<^verbatim>\<open>event_handlers\<close> and
  \<^verbatim>\<open>last_stream_ids\<close>, which only the event dispatch reads and writes.
\<close>

record AxonPulsClient =
  config :: AxonPulsClientConfig
  org_id :: string
  websocket :: bool
  subscriptions :: "string fset"
  connection_state :: ConnectionState
  heartbeat_task :: "nat option"
  reconnect_task :: "nat option"
  circuit_breaker :: CircuitBreaker
  reconnect_attempt :: nat
  last_pong_time :: int
  missed_pongs :: nat
  http_session :: bool
  tasks :: "(task_kind \<times> task_status) list"
  effects :: "effect list"

definition MAX_PAYLOAD_BYTES :: nat where "MAX_PAYLOAD_BYTES = 1048576"
definition MAX_CHANNELS :: nat where "MAX_CHANNELS = 200"
definition HEARTBEAT_INTERVAL :: int where "HEARTBEAT_INTERVAL = 30"
definition BACKOFF_BASE_MS :: int where "BACKOFF_BASE_MS = 250"
definition BACKOFF_FACTOR :: int where "BACKOFF_FACTOR = 2"
definition BACKOFF_MAX_MS :: int where "BACKOFF_MAX_MS = 30000"
definition BACKOFF_JITTER :: real where "BACKOFF_JITTER = 2 / 10"

text \<open>
  \<^verbatim>\<open>_extract_org_id_from_token\<close>. \<^verbatim>\<open>jwt.decode\<close> is a library call and a parameter here:
  \<open>jwt_decode tok\<close> is \<open>None\<close> when it raises, and the decoded claims otherwise. The
  claim's value is a string, as the method's annotation \<^verbatim>\<open>Optional[str]\<close> says.
\<close>

definition extract_org_id_from_token ::
  "(string \<Rightarrow> (string \<rightharpoonup> string) option) \<Rightarrow> string \<Rightarrow> string option" where
  "extract_org_id_from_token jwt_decode tok =
     (case jwt_decode tok of
        None \<Rightarrow> None
      | Some claims \<Rightarrow> claims ''organizationId'')"

text \<open>\<^verbatim>\<open>__init__\<close>; \<open>now\<close> is the clock reading stored in \<^verbatim>\<open>last_pong_time\<close>.\<close>

definition new_AxonPulsClient ::
  "(string \<Rightarrow> (string \<rightharpoonup> string) option) \<Rightarrow> int \<Rightarrow> AxonPulsClientConfig
   \<Rightarrow> error + AxonPulsClient" where
  "new_AxonPulsClient jwt_decode now cfg =
     (case extract_org_id_from_token jwt_decode (token cfg) of
        None \<Rightarrow> Inl (AxonPulsValidationError, MissingOrganizationId)
      | Some org \<Rightarrow>
          if org = [] then Inl (AxonPulsValidationError, MissingOrganizationId)
          else Inr \<lparr>config = cfg, org_id = org, websocket = False, subscriptions = {||},
                    connection_state = DISCONNECTED, heartbeat_task = None,
                    reconnect_task = None, circuit_breaker = default_CircuitBreaker,
                    reconnect_attempt = 0, last_pong_time = now, missed_pongs = 0,
                    http_session = False, tasks = [], effects = []\<rparr>)"

subsection \<open>Validation (client.py, lines 125 to 146)\<close>

definition expected_prefix :: "AxonPulsClient \<Rightarrow> string" where
  "expected_prefix c = ''org:'' @ org_id c @ '':''"

text \<open>\<^verbatim>\<open>_validate_channel\<close>: \<open>None\<close> when it returns \<^verbatim>\<open>True\<close>, the error when it raises.\<close>

definition validate_channel :: "AxonPulsClient \<Rightarrow> string \<Rightarrow> error option" where
  "validate_channel c channel =
     (if prefix (expected_prefix c) channel then None
      else Some (AxonPulsTenantIsolationError,
                 ChannelNotInOrganization channel (expected_prefix c)))"

text \<open>\<^verbatim>\<open>for channel in channels: self._validate_channel(channel)\<close>: the first error wins.\<close>

fun validate_channels :: "AxonPulsClient \<Rightarrow> string list \<Rightarrow> error option" where
  "validate_channels c [] = None"
| "validate_channels c (channel # channels) =
     (case validate_channel c channel of
        Some e \<Rightarrow> Some e
      | None \<Rightarrow> validate_channels c channels)"

definition validate_payload_size :: "payload \<Rightarrow> error option" where
  "validate_payload_size p =
     (case p of
        Payload payload_json \<Rightarrow>
          if length payload_json > MAX_PAYLOAD_BYTES
          then Some (AxonPulsValidationError,
                     PayloadTooLarge (length payload_json) MAX_PAYLOAD_BYTES)
          else None
      | NotSerializable \<Rightarrow> Some (AxonPulsValidationError, InvalidPayload))"

subsection \<open>Tasks\<close>

definition create_task :: "task_kind \<Rightarrow> AxonPulsClient \<Rightarrow> nat \<times> AxonPulsClient" where
  "create_task k c = (length (tasks c), c\<lparr>tasks := tasks c @ [(k, Scheduled)]\<rparr>)"

text \<open>
  \<^verbatim>\<open>task.cancel()\<close> followed by \<^verbatim>\<open>await task\<close> with \<^verbatim>\<open>CancelledError\<close> swallowed, as
  \<^verbatim>\<open>disconnect\<close> does it.
\<close>

definition cancel_task :: "nat \<Rightarrow> AxonPulsClient \<Rightarrow> AxonPulsClient" where
  "cancel_task i c =
     (if i < length (tasks c) then c\<lparr>tasks := (tasks c)[i := (fst (tasks c ! i), Cancelled)]\<rparr>
      else c)"

subsection \<open>Sending, connecting, disconnecting (client.py, lines 148 to 227 and 361 to 371)\<close>

definition send_message ::
  "message \<Rightarrow> io_result \<Rightarrow> AxonPulsClient \<Rightarrow> error option \<times> AxonPulsClient" where
  "send_message m io c =
     (if \<not> websocket c \<or> connection_state c \<noteq> CONNECTED
      then (Some (AxonPulsConnectionError, NotConnected), c)
      else
        let c1 = c\<lparr>effects := effects c @ [WsSend m]\<rparr>
        in case io of
             Succeeds \<Rightarrow> (None, c1)
           | Raises t \<Rightarrow>
               (Some (AxonPulsConnectionError, SendFailed),
                c1\<lparr>circuit_breaker := record_failure t (circuit_breaker c1)\<rparr>))"

text \<open>
  \<^verbatim>\<open>self.config.heartbeat_interval and self.config.heartbeat_interval > 0\<close>: the heartbeat task
  is started only then.
\<close>

definition heartbeat_configured :: "AxonPulsClient \<Rightarrow> bool" where
  "heartbeat_configured c =
     (case heartbeat_interval (config c) of None \<Rightarrow> False | Some i \<Rightarrow> i \<noteq> 0 \<and> i > 0)"

text \<open>
  \<^verbatim>\<open>connect\<close>. \<open>now\<close> is the clock reading of \<^verbatim>\<open>can_attempt()\<close>, \<open>io\<close> the outcome of
  \<^verbatim>\<open>await websockets.connect(...)\<close>.
\<close>

definition connect ::
  "int \<Rightarrow> io_result \<Rightarrow> AxonPulsClient \<Rightarrow> error option \<times> AxonPulsClient" where
  "connect now io c =
     (if connection_state c = CONNECTED \<or> connection_state c = CONNECTING then (None, c)
      else
        let (ok, cb) = can_attempt now (circuit_breaker c);
            c1 = c\<lparr>circuit_breaker := cb\<rparr>
        in if \<not> ok
           then (Some (AxonPulsConnectionError, CircuitBreakerOpen (timeout_seconds cb)), c1)
           else
             let c2 = c1\<lparr>connection_state := CONNECTING\<rparr>;
                 c3 = c2\<lparr>http_session := True\<rparr>;
                 c4 = c3\<lparr>effects := effects c3 @ [WsConnect]\<rparr>
             in case io of
                  Succeeds \<Rightarrow>
                    let c5 = c4\<lparr>websocket := True, connection_state := CONNECTED,
                               circuit_breaker := record_success (circuit_breaker c4),
                               reconnect_attempt := 0\<rparr>;
                        c6 = snd (create_task MessageHandlerTask c5)
                    in if heartbeat_configured c6
                       then let (h, c7) = create_task HeartbeatTask c6
                            in (None, c7\<lparr>heartbeat_task := Some h\<rparr>)
                       else (None, c6)
                | Raises t \<Rightarrow>
                    (Some (AxonPulsConnectionError, ConnectionFailed),
                     c4\<lparr>connection_state := DISCONNECTED,
                        circuit_breaker := record_failure t (circuit_breaker c4)\<rparr>))"

definition disconnect :: "AxonPulsClient \<Rightarrow> AxonPulsClient" where
  "disconnect c =
     (let c1 = c\<lparr>connection_state := DISCONNECTED\<rparr>;
          c2 = (case heartbeat_task c1 of Some h \<Rightarrow> cancel_task h c1 | None \<Rightarrow> c1);
          c3 = (case reconnect_task c2 of Some r \<Rightarrow> cancel_task r c2 | None \<Rightarrow> c2);
          c4 = (if websocket c3
                then c3\<lparr>effects := effects c3 @ [WsClose], websocket := False\<rparr>
                else c3)
      in if http_session c4 then c4\<lparr>http_session := False\<rparr> else c4)"

subsection \<open>Channel operations (client.py, lines 229 to 342)\<close>

definition subscribe ::
  "string list \<Rightarrow> SubscribeOptions option \<Rightarrow> io_result \<Rightarrow> AxonPulsClient
   \<Rightarrow> error option \<times> AxonPulsClient" where
  "subscribe channels options io c =
     (if connection_state c \<noteq> CONNECTED then (Some (AxonPulsConnectionError, NotConnected), c)
      else if length channels + fcard (subscriptions c) > MAX_CHANNELS
      then (Some (AxonPulsValidationError, MaxChannelsExceeded MAX_CHANNELS), c)
      else
        case validate_channels c channels of
          Some e \<Rightarrow> (Some e, c)
        | None \<Rightarrow>
            (case send_message (SubscribeMessage channels options) io c of
               (Some e, c1) \<Rightarrow> (Some e, c1)
             | (None, c1) \<Rightarrow>
                 (None, c1\<lparr>subscriptions := subscriptions c1 |\<union>| fset_of_list channels\<rparr>)))"

definition unsubscribe ::
  "string list \<Rightarrow> io_result \<Rightarrow> AxonPulsClient \<Rightarrow> error option \<times> AxonPulsClient" where
  "unsubscribe channels io c =
     (if connection_state c \<noteq> CONNECTED then (Some (AxonPulsConnectionError, NotConnected), c)
      else
        case validate_channels c channels of
          Some e \<Rightarrow> (Some e, c)
        | None \<Rightarrow>
            (case send_message (UnsubscribeMessage channels) io c of
               (Some e, c1) \<Rightarrow> (Some e, c1)
             | (None, c1) \<Rightarrow>
                 (None, c1\<lparr>subscriptions := subscriptions c1 |-| fset_of_list channels\<rparr>)))"

definition publish ::
  "string \<Rightarrow> string \<Rightarrow> payload \<Rightarrow> string option \<Rightarrow> PublishOptions option \<Rightarrow> io_result
   \<Rightarrow> AxonPulsClient \<Rightarrow> error option \<times> AxonPulsClient" where
  "publish channel event_type p correlation_id options io c =
     (if connection_state c \<noteq> CONNECTED then (Some (AxonPulsConnectionError, NotConnected), c)
      else
        case validate_channel c channel of
          Some e \<Rightarrow> (Some e, c)
        | None \<Rightarrow>
            (case validate_payload_size p of
               Some e \<Rightarrow> (Some e, c)
             | None \<Rightarrow>
                 send_message (PublishMessage channel event_type p correlation_id options) io c))"

definition replay ::
  "string \<Rightarrow> string option \<Rightarrow> int \<Rightarrow> io_result \<Rightarrow> AxonPulsClient
   \<Rightarrow> error option \<times> AxonPulsClient" where
  "replay channel since_id count io c =
     (if connection_state c \<noteq> CONNECTED then (Some (AxonPulsConnectionError, NotConnected), c)
      else
        case validate_channel c channel of
          Some e \<Rightarrow> (Some e, c)
        | None \<Rightarrow> send_message (ReplayMessage channel since_id count) io c)"

subsection \<open>The read loop (client.py, lines 373 to 433)\<close>

text \<open>
  The kinds of inbound message \<^verbatim>\<open>_handle_message\<close> tells apart. Of the attributes
  modelled here only a pong changes any: it stamps \<^verbatim>\<open>last_pong_time\<close> with the clock
  reading \<open>now\<close> and clears \<^verbatim>\<open>missed_pongs\<close>.
\<close>

datatype inbound = EventMessage | AckMessage | ErrorMessage | PongMessage | OtherMessage

definition handle_message :: "inbound \<Rightarrow> int \<Rightarrow> AxonPulsClient \<Rightarrow> AxonPulsClient" where
  "handle_message m now c =
     (case m of
        PongMessage \<Rightarrow> c\<lparr>last_pong_time := now, missed_pongs := 0\<rparr>
      | _ \<Rightarrow> c)"

text \<open>
  \<^verbatim>\<open>self._reconnect_task = asyncio.create_task(self._reconnect())\<close> under
  \<^verbatim>\<open>if self.config.auto_reconnect\<close>, as both the read loop and the heartbeat loop do it.
\<close>

definition start_reconnect :: "AxonPulsClient \<Rightarrow> AxonPulsClient" where
  "start_reconnect c =
     (if auto_reconnect (config c)
      then let (r, c1) = create_task ReconnectTask c in c1\<lparr>reconnect_task := Some r\<rparr>
      else c)"

text \<open>
  How \<^verbatim>\<open>async for message in self.websocket\<close> ends in \<^verbatim>\<open>_message_handler\<close>: the iteration
  stops without an exception, it raises \<^verbatim>\<open>ConnectionClosed\<close>, or it raises another
  exception. The coroutine returns in each case.
\<close>

datatype read_end = EndOfStream | ConnectionClosed | OtherException

definition message_handler_ends :: "read_end \<Rightarrow> AxonPulsClient \<Rightarrow> AxonPulsClient" where
  "message_handler_ends r c =
     (case r of
        EndOfStream \<Rightarrow> c
      | ConnectionClosed \<Rightarrow> start_reconnect (c\<lparr>connection_state := DISCONNECTED\<rparr>)
      | OtherException \<Rightarrow> start_reconnect c)"

subsection \<open>The heartbeat loop (client.py, lines 435 to 461)\<close>

datatype loop_step = Continue | Finish

text \<open>\<^verbatim>\<open>self.config.heartbeat_interval or self.HEARTBEAT_INTERVAL\<close>.\<close>

definition heartbeat_interval_or_default :: "AxonPulsClient \<Rightarrow> int" where
  "heartbeat_interval_or_default c =
     (case heartbeat_interval (config c) of
        None \<Rightarrow> HEARTBEAT_INTERVAL
      | Some i \<Rightarrow> if i = 0 then HEARTBEAT_INTERVAL else i)"

text \<open>
  \<^verbatim>\<open>time_since_pong.total_seconds() > interval * 2.5\<close>, with both sides multiplied by
  \<open>2000000\<close>: the elapsed time is a whole number of microseconds and \<open>interval\<close> an
  integer, so this comparison of integers is the comparison of the two quotients. The
  source compares two floats, with the same answer: \<^verbatim>\<open>interval * 2.5\<close> is exact, and
  \<^verbatim>\<open>total_seconds()\<close>, the correctly rounded quotient, exceeds it exactly when the true
  quotient does, since a microsecond is more than half a unit in the last place of any
  float below \<open>2 ^ 33\<close> seconds (some 270 years).
\<close>

definition pong_overdue :: "int \<Rightarrow> AxonPulsClient \<Rightarrow> bool" where
  "pong_overdue now c =
     (2 * (now - last_pong_time c) > 5 * heartbeat_interval_or_default c * 1000000)"

text \<open>
  One pass through the body of the \<^verbatim>\<open>while\<close> loop, from the return of
  \<^verbatim>\<open>asyncio.sleep\<close> on: \<open>now\<close> is the clock reading of the liveness check, \<open>io\<close> the
  outcome of sending the ping. \<open>Finish\<close> is \<^verbatim>\<open>return\<close> or \<^verbatim>\<open>break\<close>.
\<close>

definition heartbeat_iteration ::
  "int \<Rightarrow> io_result \<Rightarrow> AxonPulsClient \<Rightarrow> loop_step \<times> AxonPulsClient" where
  "heartbeat_iteration now io c =
     (if connection_state c = CONNECTED
      then
        if pong_overdue now c then (Finish, start_reconnect (disconnect c))
        else
          case send_message PingMessage io c of
            (Some e, c1) \<Rightarrow> (Finish, c1)
          | (None, c1) \<Rightarrow> (Continue, c1)
      else (Continue, c))"

text \<open>
  One turn of the loop as the task lives it: what the other tasks do to the client while
  this one sleeps (\<open>during_sleep\<close>), then the clock reading and the outcome of the ping.
\<close>

record heartbeat_tick =
  during_sleep :: "AxonPulsClient \<Rightarrow> AxonPulsClient"
  tick_time :: int
  ping_io :: io_result

text \<open>
  \<^verbatim>\<open>_heartbeat_loop\<close> on the turns the environment offers. \<open>None\<close>: the loop is still
  running when the turns are used up.
\<close>

fun heartbeat_loop :: "heartbeat_tick list \<Rightarrow> AxonPulsClient \<Rightarrow> AxonPulsClient option" where
  "heartbeat_loop [] c = (if connection_state c = CONNECTED then None else Some c)"
| "heartbeat_loop (t # ts) c =
     (if connection_state c = CONNECTED
      then
        case heartbeat_iteration (tick_time t) (ping_io t) (during_sleep t c) of
          (Finish, c1) \<Rightarrow> Some c1
        | (Continue, c1) \<Rightarrow> heartbeat_loop ts c1
      else Some c)"

subsection \<open>Reconnection (client.py, lines 463 to 494)\<close>

text \<open>
  The delay of lines 470 to 475, in seconds. \<open>base_delay\<close> and the cap are computed on
  Python's unbounded integers, exactly as here. The division by 1000 and the jitter are
  floating-point operations in the source; they are taken here as the exact operations on
  real numbers, so no rounding error is modelled. \<open>loop_time\<close> is the reading of
  \<^verbatim>\<open>asyncio.get_event_loop().time()\<close>, and \<open>frac loop_time\<close> is \<^verbatim>\<open>loop_time % 1\<close>.
\<close>

definition base_delay :: "nat \<Rightarrow> int" where
  "base_delay attempt = BACKOFF_BASE_MS * BACKOFF_FACTOR ^ attempt"

definition capped_delay :: "nat \<Rightarrow> real" where
  "capped_delay attempt = real_of_int (min (base_delay attempt) BACKOFF_MAX_MS) / 1000"

definition jitter :: "real \<Rightarrow> real" where
  "jitter loop_time = 1 + (2 * BACKOFF_JITTER * (1 / 2 - frac loop_time))"

definition reconnect_delay :: "nat \<Rightarrow> real \<Rightarrow> real" where
  "reconnect_delay attempt loop_time = capped_delay attempt * jitter loop_time"

text \<open>\<^verbatim>\<open>max_retries = self.config.reconnect_attempts or 5\<close>.\<close>

definition max_retries :: "AxonPulsClient \<Rightarrow> int" where
  "max_retries c =
     (case reconnect_attempts (config c) of
        None \<Rightarrow> 5
      | Some n \<Rightarrow> if n = 0 then 5 else n)"

text \<open>
  What the environment decides in one pass of the reconnection loop: the clock reading
  and the outcome of the transport for \<^verbatim>\<open>connect()\<close>, and the outcome of the send for
  the \<^verbatim>\<open>subscribe()\<close> that follows a successful connect.
\<close>

record reconnect_env =
  connect_time :: int
  connect_io :: io_result
  subscribe_io :: io_result

text \<open>
  One pass through the body of the \<^verbatim>\<open>while\<close> loop of \<^verbatim>\<open>_reconnect\<close>, from the return of
  \<^verbatim>\<open>asyncio.sleep(delay)\<close> on (the delay only decides how long the task sleeps). An
  exception of \<^verbatim>\<open>connect()\<close> or \<^verbatim>\<open>subscribe()\<close> is caught and logged and the loop goes on;
  \<open>Finish\<close> is the \<^verbatim>\<open>return\<close> after a successful reconnect. \<^verbatim>\<open>list(self.subscriptions)\<close>
  lists the set in an order Python does not specify; the sorted order stands for it.
\<close>

definition reconnect_iteration :: "reconnect_env \<Rightarrow> AxonPulsClient \<Rightarrow> loop_step \<times> AxonPulsClient" where
  "reconnect_iteration env c =
     (let c1 = c\<lparr>reconnect_attempt := reconnect_attempt c + 1\<rparr>
      in case connect (connect_time env) (connect_io env) c1 of
           (Some e, c2) \<Rightarrow> (Continue, c2)
         | (None, c2) \<Rightarrow>
             if subscriptions c2 \<noteq> {||}
             then
               case subscribe (sorted_list_of_fset (subscriptions c2)) None (subscribe_io env) c2 of
                 (Some e, c3) \<Rightarrow> (Continue, c3)
               | (None, c3) \<Rightarrow> (Finish, c3)
             else (Finish, c2))"


subsection \<open>A session's lifetime\<close>

text \<open>
  What can happen to a client after its construction: a call of the public interface, or
  a step of one of its background tasks. A lifetime is a sequence of these.
\<close>

datatype call =
    Call_connect int io_result
  | Call_disconnect
  | Call_subscribe "string list" "SubscribeOptions option" io_result
  | Call_unsubscribe "string list" io_result
  | Call_publish string string payload "string option" "PublishOptions option" io_result
  | Call_replay string "string option" int io_result
  | Step_handle_message inbound int
  | Step_message_handler_ends read_end
  | Step_heartbeat int io_result
  | Step_reconnect reconnect_env

fun step :: "call \<Rightarrow> AxonPulsClient \<Rightarrow> AxonPulsClient" where
  "step (Call_connect now io) c = snd (connect now io c)"
| "step Call_disconnect c = disconnect c"
| "step (Call_subscribe channels options io) c = snd (subscribe channels options io c)"
| "step (Call_unsubscribe channels io) c = snd (unsubscribe channels io c)"
| "step (Call_publish channel event_type p correlation_id options io) c =
     snd (publish channel event_type p correlation_id options io c)"
| "step (Call_replay channel since_id count io) c = snd (replay channel since_id count io c)"
| "step (Step_handle_message m now) c = handle_message m now c"
| "step (Step_message_handler_ends r) c = message_handler_ends r c"
| "step (Step_heartbeat now io) c = snd (heartbeat_iteration now io c)"
| "step (Step_reconnect env) c =
     (if int (reconnect_attempt c) < max_retries c then snd (reconnect_iteration env c) else c)"

fun run :: "call list \<Rightarrow> AxonPulsClient \<Rightarrow> AxonPulsClient" where
  "run [] c = c"
| "run (x # xs) c = run xs (step x c)"

subsection \<open>Concrete clients and environments\<close>

text \<open>
  The values the closed examples below run on. First a configuration with two
  reconnection attempts and no heartbeat, the client \<^verbatim>\<open>__init__\<close> builds from it for the
  tenant \<open>acme\<close>, and a token decoder: one token of that tenant, one token without the
  claim, every other token undecodable.
\<close>

definition example_config :: AxonPulsClientConfig where
  "example_config =
     \<lparr>url = ''wss://gateway.example'', token = ''token'', client_type = None,
      auto_reconnect = True, heartbeat_interval = None, reconnect_attempts = Some 2,
      debug = False\<rparr>"

definition example_client :: AxonPulsClient where
  "example_client =
     \<lparr>config = example_config, org_id = ''acme'', websocket = False, subscriptions = {||},
      connection_state = DISCONNECTED, heartbeat_task = None, reconnect_task = None,
      circuit_breaker = default_CircuitBreaker, reconnect_attempt = 0, last_pong_time = 0,
      missed_pongs = 0, http_session = False, tasks = [], effects = []\<rparr>"

definition example_jwt_decode :: "string \<Rightarrow> (string \<rightharpoonup> string) option" where
  "example_jwt_decode tok =
     (if tok = ''token'' then Some [''organizationId'' \<mapsto> ''acme'']
      else if tok = ''anonymous'' then Some [''sub'' \<mapsto> ''user-1'']
      else None)"

text \<open>That client after a successful \<^verbatim>\<open>connect()\<close>, and after it has then subscribed to
  one channel.\<close>

definition connected_client :: AxonPulsClient where
  "connected_client = snd (connect 0 Succeeds example_client)"

definition subscribed_client :: AxonPulsClient where
  "subscribed_client = snd (subscribe [''org:acme:news''] None Succeeds connected_client)"

text \<open>The same with a heartbeat interval of 30 seconds configured.\<close>

definition heartbeat_client :: AxonPulsClient where
  "heartbeat_client =
     snd (connect 0 Succeeds
       (example_client\<lparr>config := example_config\<lparr>heartbeat_interval := Some 30\<rparr>\<rparr>))"

text \<open>A turn of the heartbeat loop during which no other task touches the client.\<close>

definition quiet_tick :: "int \<Rightarrow> heartbeat_tick" where
  "quiet_tick t = \<lparr>during_sleep = (\<lambda>c. c), tick_time = t, ping_io = Succeeds\<rparr>"

text \<open>A turn of the heartbeat loop in which the ping cannot be sent: \<^verbatim>\<open>websocket.send\<close>
  raises at clock reading \<open>t\<close>.\<close>

definition failed_ping_tick :: "int \<Rightarrow> heartbeat_tick" where
  "failed_ping_tick t = \<lparr>during_sleep = (\<lambda>c. c), tick_time = t, ping_io = Raises t\<rparr>"

text \<open>The client after five \<^verbatim>\<open>connect()\<close> calls that the transport refused, one a second
  from the clock reading of 1 s on: its breaker is open.\<close>

definition tripped_client :: AxonPulsClient where
  "tripped_client =
     run [Call_connect 1000000 (Raises 1000000), Call_connect 2000000 (Raises 2000000),
          Call_connect 3000000 (Raises 3000000), Call_connect 4000000 (Raises 4000000),
          Call_connect 5000000 (Raises 5000000)] example_client"


definition dropped_after_connect :: reconnect_env where
  "dropped_after_connect =
     \<lparr>connect_time = 1000000, connect_io = Succeeds, subscribe_io = Raises 1000000\<rparr>"



text \<open>
  From the words of the specification, for comparison with what \<^verbatim>\<open>connect\<close> reports: the
  remaining cooldown of a breaker, the part of the cooldown window after the last failure
  that has not yet passed (in microseconds).
\<close>

definition spec_remaining_cooldown :: "int \<Rightarrow> CircuitBreaker \<Rightarrow> int" where
  "spec_remaining_cooldown now cb =
     (case last_failure_time cb of
        None \<Rightarrow> 0
      | Some t \<Rightarrow> timedelta_seconds (timeout_seconds cb) - (now - t))"

section \<open>Properties\<close>

subsection \<open>The concrete clients, evaluated\<close>

lemma connected_client_eq:
  "connected_client =
     \<lparr>config = example_config, org_id = ''acme'', websocket = True, subscriptions = {||},
      connection_state = CONNECTED, heartbeat_task = None, reconnect_task = None,
      circuit_breaker = default_CircuitBreaker, reconnect_attempt = 0, last_pong_time = 0,
      missed_pongs = 0, http_session = True, tasks = [(MessageHandlerTask, Scheduled)],
      effects = [WsConnect]\<rparr>"
  by (simp add: connected_client_def example_client_def connect_def can_attempt_def
      default_CircuitBreaker_def new_CircuitBreaker_def record_success_def create_task_def
      heartbeat_configured_def example_config_def Let_def)

lemma connected_client_prefix:
  "expected_prefix connected_client = ''org:acme:''"
  by (simp add: expected_prefix_def connected_client_eq)

lemma sorted_list_of_fset_single: "sorted_list_of_fset {|x|} = [x]"
  by (simp add: sorted_list_of_fset.rep_eq)

lemma fcard_single: "fcard {|x|} = 1"
  by (simp add: fcard_finsert_if fcard_fempty)

lemma subscribed_client_eq:
  "subscribed_client =
     \<lparr>config = example_config, org_id = ''acme'', websocket = True,
      subscriptions = {|''org:acme:news''|},
      connection_state = CONNECTED, heartbeat_task = None, reconnect_task = None,
      circuit_breaker = default_CircuitBreaker, reconnect_attempt = 0, last_pong_time = 0,
      missed_pongs = 0, http_session = True, tasks = [(MessageHandlerTask, Scheduled)],
      effects = [WsConnect, WsSend (SubscribeMessage [''org:acme:news''] None)]\<rparr>"
  by (simp add: subscribed_client_def connected_client_eq subscribe_def MAX_CHANNELS_def
      fcard_fempty validate_channel_def expected_prefix_def send_message_def Let_def)

lemma heartbeat_client_eq:
  "heartbeat_client =
     \<lparr>config = example_config\<lparr>heartbeat_interval := Some 30\<rparr>, org_id = ''acme'',
      websocket = True, subscriptions = {||},
      connection_state = CONNECTED, heartbeat_task = Some 1, reconnect_task = None,
      circuit_breaker = default_CircuitBreaker, reconnect_attempt = 0, last_pong_time = 0,
      missed_pongs = 0, http_session = True,
      tasks = [(MessageHandlerTask, Scheduled), (HeartbeatTask, Scheduled)],
      effects = [WsConnect]\<rparr>"
  by (simp add: heartbeat_client_def example_client_def connect_def can_attempt_def
      default_CircuitBreaker_def new_CircuitBreaker_def record_success_def create_task_def
      heartbeat_configured_def example_config_def Let_def)

lemma connect_fails:
  "connection_state c = DISCONNECTED \<Longrightarrow> state (circuit_breaker c) = CLOSED \<Longrightarrow>
   connect now (Raises t) c =
     (Some (AxonPulsConnectionError, ConnectionFailed),
      c\<lparr>http_session := True, effects := effects c @ [WsConnect],
        circuit_breaker := record_failure t (circuit_breaker c)\<rparr>)"
  by (simp add: connect_def can_attempt_def Let_def)

lemma tripped_client_eq:
  "tripped_client =
     example_client\<lparr>http_session := True,
       effects := [WsConnect, WsConnect, WsConnect, WsConnect, WsConnect],
       circuit_breaker := \<lparr>failure_threshold = 5, timeout_seconds = 60, failure_count = 5,
          state = OPEN, last_failure_time = Some 5000000\<rparr>\<rparr>"
  by (simp add: tripped_client_def example_client_def connect_fails
      default_CircuitBreaker_def new_CircuitBreaker_def record_failure_def Let_def)

lemma first_closure:
  "message_handler_ends ConnectionClosed subscribed_client =
     subscribed_client\<lparr>connection_state := DISCONNECTED, reconnect_task := Some 1,
       tasks := [(MessageHandlerTask, Scheduled), (ReconnectTask, Scheduled)]\<rparr>"
  by (simp add: message_handler_ends_def start_reconnect_def create_task_def
      subscribed_client_eq example_config_def)

lemma first_pass:
  "reconnect_iteration dropped_after_connect
     (message_handler_ends ConnectionClosed subscribed_client) =
     (Continue,
      subscribed_client\<lparr>reconnect_task := Some 1,
        tasks := [(MessageHandlerTask, Scheduled), (ReconnectTask, Scheduled),
                  (MessageHandlerTask, Scheduled)],
        effects := [WsConnect, WsSend (SubscribeMessage [''org:acme:news''] None), WsConnect,
                    WsSend (SubscribeMessage [''org:acme:news''] None)],
        circuit_breaker := \<lparr>failure_threshold = 5, timeout_seconds = 60, failure_count = 1,
          state = CLOSED, last_failure_time = Some 1000000\<rparr>\<rparr>)"
  unfolding first_closure
  by (simp add: reconnect_iteration_def dropped_after_connect_def subscribed_client_eq
      connect_def can_attempt_def default_CircuitBreaker_def new_CircuitBreaker_def
      record_success_def record_failure_def create_task_def heartbeat_configured_def
      example_config_def subscribe_def MAX_CHANNELS_def fcard_single validate_channel_def
      expected_prefix_def send_message_def sorted_list_of_fset_single Let_def)



subsection \<open>Circuit breaker\<close>

lemma record_failure_fields:
  "failure_threshold (record_failure t cb) = failure_threshold cb"
  "timeout_seconds (record_failure t cb) = timeout_seconds cb"
  "failure_count (record_failure t cb) = failure_count cb + 1"
  "last_failure_time (record_failure t cb) = Some t"
  by (simp_all add: record_failure_def Let_def)

lemma record_failure_state:
  "state (record_failure t cb) =
     (if failure_count cb + 1 \<ge> failure_threshold cb then OPEN else state cb)"
  by (simp add: record_failure_def Let_def)

lemma record_failures_append:
  "record_failures (xs @ ys) cb = record_failures ys (record_failures xs cb)"
  by (induction xs arbitrary: cb) simp_all

lemma record_failures_fields:
  "failure_threshold (record_failures ts cb) = failure_threshold cb"
  "timeout_seconds (record_failures ts cb) = timeout_seconds cb"
  "failure_count (record_failures ts cb) = failure_count cb + int (length ts)"
  by (induction ts arbitrary: cb) (simp_all add: record_failure_fields)

lemma record_failures_closed:
  "state cb = CLOSED \<Longrightarrow> failure_count cb + int (length ts) < failure_threshold cb \<Longrightarrow>
   state (record_failures ts cb) = CLOSED"
proof (induction ts arbitrary: cb)
  case Nil
  then show ?case by simp
next
  case (Cons t ts)
  have "state (record_failure t cb) = CLOSED"
    using Cons.prems by (simp add: record_failure_state)
  moreover have "failure_count (record_failure t cb) + int (length ts)
      < failure_threshold (record_failure t cb)"
    using Cons.prems by (simp add: record_failure_fields)
  ultimately show ?case using Cons.IH by simp
qed

lemma record_failures_snoc:
  "record_failures (ts @ [t]) cb = record_failure t (record_failures ts cb)"
  by (simp add: record_failures_append)

lemma record_failures_last:
  "ts \<noteq> [] \<Longrightarrow> last_failure_time (record_failures ts cb) = Some (last ts)"
  by (cases ts rule: rev_cases) (simp_all add: record_failures_snoc record_failure_fields)

lemma record_failures_open:
  "ts \<noteq> [] \<Longrightarrow> failure_threshold cb \<le> failure_count cb + int (length ts) \<Longrightarrow>
   state (record_failures ts cb) = OPEN"
  by (cases ts rule: rev_cases)
     (simp_all add: record_failures_snoc record_failure_state record_failures_fields)

text \<open>
  Claim C1. A breaker starts CLOSED with no failures. With a threshold of at least one
  and a cooldown that is not negative: fewer than \<open>threshold\<close> consecutive
  \<^verbatim>\<open>record_failure()\<close> calls leave it CLOSED; after exactly \<open>threshold\<close> of them it is
  OPEN, and \<^verbatim>\<open>can_attempt()\<close> asked at once (at the clock reading of the last failure)
  is false and leaves the breaker as it is. As long as the time since the last failure
  does not exceed the cooldown the answer stays false; once it exceeds the cooldown the
  answer is true and the breaker is HALF_OPEN, and one \<^verbatim>\<open>record_success()\<close> then makes it
  CLOSED with a failure count of 0.
\<close>

theorem circuit_breaker_cycle:
  assumes thr: "0 < threshold" and cool: "0 \<le> cooldown"
    and len: "int (length ts) = threshold"
  shows "let cb0 = new_CircuitBreaker threshold cooldown;
             cb = record_failures ts cb0;
             elapsed = now - last ts
         in (\<forall>k < length ts. state (record_failures (take k ts) cb0) = CLOSED)
          \<and> state cb = OPEN
          \<and> can_attempt (last ts) cb = (False, cb)
          \<and> (elapsed \<le> timedelta_seconds cooldown \<longrightarrow> can_attempt now cb = (False, cb))
          \<and> (elapsed > timedelta_seconds cooldown \<longrightarrow>
               can_attempt now cb = (True, cb\<lparr>state := HALF_OPEN\<rparr>)
             \<and> state (record_success (snd (can_attempt now cb))) = CLOSED
             \<and> failure_count (record_success (snd (can_attempt now cb))) = 0)"
proof -
  define cb0 where "cb0 = new_CircuitBreaker threshold cooldown"
  define cb where "cb = record_failures ts cb0"
  have init: "state cb0 = CLOSED" "failure_count cb0 = 0"
    "failure_threshold cb0 = threshold" "timeout_seconds cb0 = cooldown"
    by (simp_all add: cb0_def new_CircuitBreaker_def)
  have ne: "ts \<noteq> []" using thr len by auto
  have before: "state (record_failures (take k ts) cb0) = CLOSED" if "k < length ts" for k
    using that len init by (intro record_failures_closed) simp_all
  have "open": "state cb = OPEN"
    unfolding cb_def using ne len init by (intro record_failures_open) simp_all
  have last: "last_failure_time cb = Some (last ts)"
    unfolding cb_def using ne by (rule record_failures_last)
  have tmo: "timeout_seconds cb = cooldown"
    unfolding cb_def by (simp add: record_failures_fields init)
  have ca: "can_attempt t cb =
      (if t - last ts > timedelta_seconds cooldown then (True, cb\<lparr>state := HALF_OPEN\<rparr>)
       else (False, cb))" for t
    by (simp add: can_attempt_def "open" last tmo)
  have now0: "can_attempt (last ts) cb = (False, cb)"
    using cool by (simp add: ca timedelta_seconds_def)
  have half: "state (record_success (cb\<lparr>state := HALF_OPEN\<rparr>)) = CLOSED"
    "failure_count (record_success (cb\<lparr>state := HALF_OPEN\<rparr>)) = 0"
    by (simp_all add: record_success_def Let_def)
  show ?thesis
    unfolding Let_def cb0_def[symmetric] cb_def[symmetric]
    using before "open" now0 half by (simp add: ca)
qed

theorem circuit_breaker_cycle_witness:
  "(0::int) < 5 \<and> (0::int) \<le> 60
   \<and> int (length [1000000, 2000000, 3000000, 4000000, 5000000::int]) = 5
   \<and> state (record_failures [1000000, 2000000, 3000000, 4000000]
         (new_CircuitBreaker 5 60)) = CLOSED
   \<and> state (record_failures [1000000, 2000000, 3000000, 4000000, 5000000]
         (new_CircuitBreaker 5 60)) = OPEN
   \<and> can_attempt 5000000 (record_failures [1000000, 2000000, 3000000, 4000000, 5000000]
         (new_CircuitBreaker 5 60))
       = (False, record_failures [1000000, 2000000, 3000000, 4000000, 5000000]
         (new_CircuitBreaker 5 60))
   \<and> can_attempt 65000000 (record_failures [1000000, 2000000, 3000000, 4000000, 5000000]
         (new_CircuitBreaker 5 60))
       = (False, record_failures [1000000, 2000000, 3000000, 4000000, 5000000]
         (new_CircuitBreaker 5 60))
   \<and> can_attempt 65000001 (record_failures [1000000, 2000000, 3000000, 4000000, 5000000]
         (new_CircuitBreaker 5 60))
       = (True, (record_failures [1000000, 2000000, 3000000, 4000000, 5000000]
         (new_CircuitBreaker 5 60))\<lparr>state := HALF_OPEN\<rparr>)
   \<and> state (record_success (snd (can_attempt 65000001
         (record_failures [1000000, 2000000, 3000000, 4000000, 5000000]
           (new_CircuitBreaker 5 60))))) = CLOSED
   \<and> failure_count (record_success (snd (can_attempt 65000001
         (record_failures [1000000, 2000000, 3000000, 4000000, 5000000]
           (new_CircuitBreaker 5 60))))) = 0"
proof -
  have h1: "(0::int) < 5" and h2: "(0::int) \<le> 60"
    and h3: "int (length [1000000, 2000000, 3000000, 4000000, 5000000::int]) = 5"
    by simp_all
  have l: "last [1000000, 2000000, 3000000, 4000000, 5000000::int] = 5000000"
    by simp
  have t: "take 4 [1000000, 2000000, 3000000, 4000000, 5000000::int]
      = [1000000, 2000000, 3000000, 4000000]"
    by simp
  have k: "4 < length [1000000, 2000000, 3000000, 4000000, 5000000::int]"
    by simp
  have e: "65000001 - (5000000::int) > timedelta_seconds 60"
    and n: "65000000 - (5000000::int) \<le> timedelta_seconds 60"
    by (simp_all add: timedelta_seconds_def)
  note b = circuit_breaker_cycle [OF h1 h2 h3, of 65000000, unfolded Let_def l]
  note c = circuit_breaker_cycle [OF h1 h2 h3, of 65000001, unfolded Let_def l]
  from c k have "state (record_failures (take 4 [1000000, 2000000, 3000000, 4000000, 5000000])
      (new_CircuitBreaker 5 60)) = CLOSED"
    by blast
  then have before: "state (record_failures [1000000, 2000000, 3000000, 4000000]
      (new_CircuitBreaker 5 60)) = CLOSED"
    unfolding t .
  from b n have still: "can_attempt 65000000
      (record_failures [1000000, 2000000, 3000000, 4000000, 5000000] (new_CircuitBreaker 5 60))
       = (False, record_failures [1000000, 2000000, 3000000, 4000000, 5000000]
         (new_CircuitBreaker 5 60))"
    by blast
  from c e h1 h2 h3 before still show ?thesis by blast
qed

subsection \<open>Reconnection gives up\<close>









subsection \<open>Subscribing\<close>

lemma send_message_subscriptions:
  "subscriptions (snd (send_message m io c)) = subscriptions c"
  by (simp add: send_message_def Let_def split: io_result.splits)

lemma send_message_ok:
  "fst (send_message m io c) = None \<Longrightarrow>
   io = Succeeds \<and> snd (send_message m io c) = c\<lparr>effects := effects c @ [WsSend m]\<rparr>"
  by (simp add: send_message_def Let_def split: io_result.splits if_splits)

text \<open>
  Claim C3. On a connected client, with the maximum of 200 channels: when the number of
  requested channels plus the number of subscriptions held exceeds the maximum,
  \<^verbatim>\<open>subscribe\<close> raises the validation error and the client, its subscriptions
  included, is unchanged; whenever \<^verbatim>\<open>subscribe\<close> raises, the subscriptions are
  unchanged; and when it returns, the subscribe request has been handed to the transport,
  the send has succeeded, and the channels have been added to the subscriptions.
\<close>

theorem subscribe_limit:
  assumes conn: "connection_state c = CONNECTED"
  shows "MAX_CHANNELS = 200
    \<and> (length channels + fcard (subscriptions c) > MAX_CHANNELS \<longrightarrow>
         subscribe channels options io c
           = (Some (AxonPulsValidationError, MaxChannelsExceeded MAX_CHANNELS), c))
    \<and> (fst (subscribe channels options io c) \<noteq> None \<longrightarrow>
         subscriptions (snd (subscribe channels options io c)) = subscriptions c)
    \<and> (fst (subscribe channels options io c) = None \<longrightarrow>
         io = Succeeds
         \<and> effects (snd (subscribe channels options io c))
             = effects c @ [WsSend (SubscribeMessage channels options)]
         \<and> subscriptions (snd (subscribe channels options io c))
             = subscriptions c |\<union>| fset_of_list channels)"
proof -
  let ?m = "SubscribeMessage channels options"
  have over: "length channels + fcard (subscriptions c) > MAX_CHANNELS \<Longrightarrow>
      subscribe channels options io c
        = (Some (AxonPulsValidationError, MaxChannelsExceeded MAX_CHANNELS), c)"
    using conn by (simp add: subscribe_def)
  have failed: "subscriptions (snd (subscribe channels options io c)) = subscriptions c"
    if "fst (subscribe channels options io c) \<noteq> None"
    using that send_message_subscriptions[of ?m io c]
    by (auto simp: subscribe_def split: if_splits option.splits prod.splits)
  have sent: "io = Succeeds
      \<and> effects (snd (subscribe channels options io c)) = effects c @ [WsSend ?m]
      \<and> subscriptions (snd (subscribe channels options io c))
          = subscriptions c |\<union>| fset_of_list channels"
    if "fst (subscribe channels options io c) = None"
    using that send_message_ok[of ?m io c]
    by (auto simp: subscribe_def split: if_splits option.splits prod.splits)
  show ?thesis using over failed sent by (simp add: MAX_CHANNELS_def)
qed

theorem subscribe_limit_witness:
  "connection_state connected_client = CONNECTED
   \<and> length (replicate 201 ''org:acme:news'') + fcard (subscriptions connected_client) > MAX_CHANNELS
   \<and> subscribe (replicate 201 ''org:acme:news'') None Succeeds connected_client
       = (Some (AxonPulsValidationError, MaxChannelsExceeded 200), connected_client)
   \<and> fst (subscribe [''org:acme:news''] None Succeeds connected_client) = None
   \<and> subscriptions (snd (subscribe [''org:acme:news''] None Succeeds connected_client))
       = {|''org:acme:news''|}
   \<and> effects (snd (subscribe [''org:acme:news''] None Succeeds connected_client))
       = [WsConnect, WsSend (SubscribeMessage [''org:acme:news''] None)]"
proof -
  have conn: "connection_state connected_client = CONNECTED"
    by (simp add: connected_client_eq)
  have over: "length (replicate 201 ''org:acme:news'') + fcard (subscriptions connected_client)
      > MAX_CHANNELS"
    by (simp add: connected_client_eq MAX_CHANNELS_def)
  have ok: "fst (subscribe [''org:acme:news''] None Succeeds connected_client) = None"
    by (simp add: connected_client_eq subscribe_def MAX_CHANNELS_def validate_channel_def fcard_fempty
        expected_prefix_def send_message_def Let_def)
  note a = subscribe_limit [OF conn, of "replicate 201 ''org:acme:news''" None Succeeds]
  note b = subscribe_limit [OF conn, of "[''org:acme:news'']" None Succeeds]
  have s: "subscriptions connected_client = {||}" "effects connected_client = [WsConnect]"
    by (simp_all add: connected_client_eq)
  from a over have 1: "subscribe (replicate 201 ''org:acme:news'') None Succeeds connected_client
       = (Some (AxonPulsValidationError, MaxChannelsExceeded 200), connected_client)"
    by (simp add: MAX_CHANNELS_def)
  from b ok have 2: "subscriptions (snd (subscribe [''org:acme:news''] None Succeeds connected_client))
       = {|''org:acme:news''|}"
    "effects (snd (subscribe [''org:acme:news''] None Succeeds connected_client))
       = [WsConnect, WsSend (SubscribeMessage [''org:acme:news''] None)]"
    by (simp_all add: s)
  show ?thesis using conn over ok 1 2 by simp
qed

subsection \<open>Backoff delay\<close>

lemma base_delay_pos: "250 \<le> base_delay n"
proof -
  have "(1::int) \<le> 2 ^ n" by simp
  then show ?thesis by (simp add: base_delay_def BACKOFF_BASE_MS_def BACKOFF_FACTOR_def)
qed

lemma base_delay_mono: "n \<le> n' \<Longrightarrow> base_delay n \<le> base_delay n'"
  by (simp add: base_delay_def BACKOFF_BASE_MS_def BACKOFF_FACTOR_def power_increasing)

lemma capped_delay_mono: "n \<le> n' \<Longrightarrow> capped_delay n \<le> capped_delay n'"
proof -
  assume "n \<le> n'"
  then have "min (base_delay n) BACKOFF_MAX_MS \<le> min (base_delay n') BACKOFF_MAX_MS"
    using base_delay_mono [of n n'] by simp
  then show ?thesis by (simp add: capped_delay_def divide_right_mono)
qed

lemma capped_delay_bounds: "1 / 4 \<le> capped_delay n" "capped_delay n \<le> 30"
proof -
  have "250 \<le> min (base_delay n) BACKOFF_MAX_MS"
    using base_delay_pos [of n] by (simp add: BACKOFF_MAX_MS_def)
  then have "250 \<le> real_of_int (min (base_delay n) BACKOFF_MAX_MS)" by linarith
  then show "1 / 4 \<le> capped_delay n" by (simp add: capped_delay_def)
  have "min (base_delay n) BACKOFF_MAX_MS \<le> 30000" by (simp add: BACKOFF_MAX_MS_def)
  then have "real_of_int (min (base_delay n) BACKOFF_MAX_MS) \<le> 30000" by linarith
  then show "capped_delay n \<le> 30" by (simp add: capped_delay_def)
qed

lemma jitter_bounds: "1 - BACKOFF_JITTER < jitter t" "jitter t \<le> 1 + BACKOFF_JITTER"
proof -
  have f: "0 \<le> frac t" "frac t < 1"
    by (rule frac_ge_0, rule frac_lt_1)
  have j: "jitter t = 6 / 5 - 2 / 5 * frac t"
    unfolding jitter_def BACKOFF_JITTER_def by argo
  show "1 - BACKOFF_JITTER < jitter t" "jitter t \<le> 1 + BACKOFF_JITTER"
    using f unfolding j BACKOFF_JITTER_def by linarith+
qed

text \<open>
  Claim C4, on exact arithmetic (the rounding of the source's floating-point operations
  is not modelled). With base 250 ms, factor 2, cap 30000 ms and jitter 0.2: the delay
  before attempt \<open>n\<close> is \<open>min (250 * 2 ^ n) 30000\<close> milliseconds, in seconds, times a
  jitter factor that lies between \<open>1 - 0.2\<close> and \<open>1 + 0.2\<close>; the delay without the jitter
  never decreases as \<open>n\<close> grows; and the delay is greater than zero and at most the cap
  times \<open>1 + 0.2\<close>, whatever the event loop's clock reads.
\<close>

theorem backoff_delay_bounds:
  "BACKOFF_BASE_MS = 250 \<and> BACKOFF_FACTOR = 2 \<and> BACKOFF_MAX_MS = 30000
   \<and> BACKOFF_JITTER = 2 / 10
   \<and> reconnect_delay n t
       = real_of_int (min (BACKOFF_BASE_MS * BACKOFF_FACTOR ^ n) BACKOFF_MAX_MS) / 1000
         * jitter t
   \<and> 1 - BACKOFF_JITTER \<le> jitter t \<and> jitter t \<le> 1 + BACKOFF_JITTER
   \<and> capped_delay n = real_of_int (min (BACKOFF_BASE_MS * BACKOFF_FACTOR ^ n) BACKOFF_MAX_MS) / 1000
   \<and> (n \<le> n' \<longrightarrow> capped_delay n \<le> capped_delay n')
   \<and> 0 < reconnect_delay n t
   \<and> reconnect_delay n t \<le> real_of_int BACKOFF_MAX_MS / 1000 * (1 + BACKOFF_JITTER)"
proof -
  have j: "4 / 5 < jitter t" "jitter t \<le> 6 / 5"
    using jitter_bounds [of t] by (simp_all add: BACKOFF_JITTER_def)
  have c: "1 / 4 \<le> capped_delay n" "capped_delay n \<le> 30"
    by (rule capped_delay_bounds)+
  have pos: "0 < capped_delay n * jitter t"
    using j(1) c(1) by (intro mult_pos_pos) linarith+
  have "capped_delay n * jitter t \<le> 30 * (6 / 5)"
    using j c by (intro mult_mono) linarith+
  then have up: "capped_delay n * jitter t \<le> real_of_int BACKOFF_MAX_MS / 1000 * (1 + BACKOFF_JITTER)"
    by (simp add: BACKOFF_MAX_MS_def BACKOFF_JITTER_def)
  have d: "reconnect_delay n t = capped_delay n * jitter t"
    by (simp add: reconnect_delay_def)
  have e: "capped_delay n
      = real_of_int (min (BACKOFF_BASE_MS * BACKOFF_FACTOR ^ n) BACKOFF_MAX_MS) / 1000"
    by (simp add: capped_delay_def base_delay_def)
  have k: "BACKOFF_BASE_MS = 250" "BACKOFF_FACTOR = 2" "BACKOFF_MAX_MS = 30000"
    "BACKOFF_JITTER = 2 / 10"
    by (simp_all add: BACKOFF_BASE_MS_def BACKOFF_FACTOR_def BACKOFF_MAX_MS_def
        BACKOFF_JITTER_def)
  have jj: "1 - BACKOFF_JITTER \<le> jitter t" "jitter t \<le> 1 + BACKOFF_JITTER"
    using jitter_bounds [of t] by simp_all
  have mono: "n \<le> n' \<longrightarrow> capped_delay n \<le> capped_delay n'"
    using capped_delay_mono by blast
  show ?thesis
    using k jj mono pos up unfolding d
    by (intro conjI) (simp_all only: e [symmetric])
qed

theorem backoff_delay_bounds_witness:
  "(3::nat) \<le> 7
   \<and> capped_delay 3 = 2 \<and> capped_delay 7 = 30 \<and> capped_delay 3 \<le> capped_delay 7
   \<and> jitter (7 / 4) = 9 / 10
   \<and> reconnect_delay 3 (7 / 4) = 9 / 5
   \<and> 0 < reconnect_delay 3 (7 / 4) \<and> reconnect_delay 3 (7 / 4) \<le> 36"
proof -
  have le: "(3::nat) \<le> 7" by simp
  have f: "frac (7 / 4 :: real) = 3 / 4"
    by (simp add: frac_def)
  have c3: "capped_delay 3 = 2" and c7: "capped_delay 7 = 30"
    by (simp_all add: capped_delay_def base_delay_def BACKOFF_BASE_MS_def BACKOFF_FACTOR_def
        BACKOFF_MAX_MS_def)
  have j: "jitter (7 / 4) = 9 / 10"
    by (simp add: jitter_def f BACKOFF_JITTER_def)
  note b = backoff_delay_bounds [of 3 "7 / 4" 7]
  from b le have m: "capped_delay 3 \<le> capped_delay 7" by blast
  from b have p: "0 < reconnect_delay 3 (7 / 4)"
    and u: "reconnect_delay 3 (7 / 4) \<le> real_of_int BACKOFF_MAX_MS / 1000 * (1 + BACKOFF_JITTER)"
    by blast+
  from u have u': "reconnect_delay 3 (7 / 4) \<le> 36"
    by (simp add: BACKOFF_MAX_MS_def BACKOFF_JITTER_def)
  have d: "reconnect_delay 3 (7 / 4) = 9 / 5"
    by (simp add: reconnect_delay_def c3 j)
  from le c3 c7 m j d p u' show ?thesis by blast
qed

subsection \<open>Connecting against an open breaker\<close>

text \<open>
  Claim C5, as amended. Whenever the client is neither connected nor connecting and the
  breaker denies the attempt, \<^verbatim>\<open>connect\<close> raises an error at once: the transport is not
  called and the client is unchanged. The error's message carries the breaker's
  configured cooldown \<^verbatim>\<open>timeout_seconds\<close>, the whole window and not what remains of it.
\<close>

theorem connect_circuit_open:
  assumes "connection_state c \<noteq> CONNECTED" and "connection_state c \<noteq> CONNECTING"
    and "fst (can_attempt now (circuit_breaker c)) = False"
  shows "\<exists>cls. connect now io c
      = (Some (cls, CircuitBreakerOpen (timeout_seconds (circuit_breaker c))), c)"
proof -
  have "snd (can_attempt now (circuit_breaker c)) = circuit_breaker c"
    using assms(3)
    by (auto simp: can_attempt_def split: CircuitState.splits option.splits if_splits)
  then have "can_attempt now (circuit_breaker c) = (False, circuit_breaker c)"
    using assms(3) by (metis prod.collapse)
  then show ?thesis using assms(1,2) by (simp add: connect_def)
qed

theorem connect_circuit_open_witness:
  "connection_state tripped_client \<noteq> CONNECTED \<and> connection_state tripped_client \<noteq> CONNECTING
   \<and> fst (can_attempt 35000000 (circuit_breaker tripped_client)) = False
   \<and> (\<exists>cls. connect 35000000 Succeeds tripped_client
         = (Some (cls, CircuitBreakerOpen 60), tripped_client))"
proof -
  have a: "connection_state tripped_client \<noteq> CONNECTED"
    and b: "connection_state tripped_client \<noteq> CONNECTING"
    by (simp_all add: tripped_client_eq example_client_def)
  have c: "fst (can_attempt 35000000 (circuit_breaker tripped_client)) = False"
    by (simp add: tripped_client_eq can_attempt_def timedelta_seconds_def)
  have t: "timeout_seconds (circuit_breaker tripped_client) = 60"
    by (simp add: tripped_client_eq)
  from connect_circuit_open [OF a b c, of Succeeds] a b c show ?thesis
    unfolding t by blast
qed

text \<open>
  The claim as stated fails: 30 seconds after the fifth failure the breaker of the
  concrete client still denies the attempt, 30 seconds of its cooldown remain, and
  \<^verbatim>\<open>connect\<close> raises \<^verbatim>\<open>AxonPulsConnectionError\<close> with a wait of 60 seconds.
\<close>

theorem connect_circuit_open_counterexample:
  "connection_state tripped_client = DISCONNECTED
   \<and> fst (can_attempt 35000000 (circuit_breaker tripped_client)) = False
   \<and> connect 35000000 Succeeds tripped_client
       = (Some (AxonPulsConnectionError, CircuitBreakerOpen 60), tripped_client)
   \<and> spec_remaining_cooldown 35000000 (circuit_breaker tripped_client) = timedelta_seconds 30
   \<and> timedelta_seconds 60 \<noteq> timedelta_seconds 30"
  by (simp add: tripped_client_eq example_client_def can_attempt_def timedelta_seconds_def
      connect_def spec_remaining_cooldown_def)

subsection \<open>Publishing\<close>

text \<open>
  Claim C6. On a connected client, for a channel of the tenant and a payload whose JSON
  serialisation is longer than the ceiling of 1048576 bytes, \<^verbatim>\<open>publish\<close> raises the
  validation error for an oversized payload (class \<^verbatim>\<open>AxonPulsValidationError\<close>, with the
  size and the ceiling in its message) and returns the client unchanged: no call is made
  on the transport, so no message is sent.
\<close>

theorem publish_payload_ceiling:
  assumes conn: "connection_state c = CONNECTED"
    and valid: "prefix (expected_prefix c) channel"
    and big: "length payload_json > MAX_PAYLOAD_BYTES"
  shows "MAX_PAYLOAD_BYTES = 1048576
    \<and> publish channel event_type (Payload payload_json) correlation_id options io c
        = (Some (AxonPulsValidationError,
                 PayloadTooLarge (length payload_json) MAX_PAYLOAD_BYTES), c)
    \<and> effects (snd (publish channel event_type (Payload payload_json) correlation_id options
          io c)) = effects c"
  using conn valid big
  by (simp add: publish_def validate_channel_def validate_payload_size_def)
     (simp add: MAX_PAYLOAD_BYTES_def)

theorem publish_payload_ceiling_witness:
  "connection_state connected_client = CONNECTED
   \<and> prefix (expected_prefix connected_client) ''org:acme:news''
   \<and> length (replicate 1048577 CHR ''x'') > MAX_PAYLOAD_BYTES
   \<and> publish ''org:acme:news'' ''created'' (Payload (replicate 1048577 CHR ''x'')) None None
        Succeeds connected_client
      = (Some (AxonPulsValidationError, PayloadTooLarge 1048577 1048576), connected_client)"
proof -
  have conn: "connection_state connected_client = CONNECTED"
    by (simp add: connected_client_eq)
  have valid: "prefix (expected_prefix connected_client) ''org:acme:news''"
    by (simp add: connected_client_prefix)
  have big: "length (replicate 1048577 CHR ''x'') > MAX_PAYLOAD_BYTES"
    by (simp add: MAX_PAYLOAD_BYTES_def)
  from publish_payload_ceiling [OF conn valid big, of "''created''" None None Succeeds]
  have "publish ''org:acme:news'' ''created'' (Payload (replicate 1048577 CHR ''x'')) None None
        Succeeds connected_client
      = (Some (AxonPulsValidationError, PayloadTooLarge 1048577 1048576), connected_client)"
    by (simp add: MAX_PAYLOAD_BYTES_def)
  with conn valid big show ?thesis by blast
qed

subsection \<open>Tenant isolation\<close>

lemma validate_channels_bad:
  "\<exists>ch\<in>set channels. \<not> prefix (expected_prefix c) ch \<Longrightarrow>
   \<exists>ch\<in>set channels. \<not> prefix (expected_prefix c) ch
     \<and> validate_channels c channels
         = Some (AxonPulsTenantIsolationError, ChannelNotInOrganization ch (expected_prefix c))"
proof (induction channels)
  case Nil
  then show ?case by simp
next
  case (Cons a channels)
  show ?case
  proof (cases "prefix (expected_prefix c) a")
    case True
    with Cons.prems have "\<exists>ch\<in>set channels. \<not> prefix (expected_prefix c) ch" by auto
    from Cons.IH [OF this] True show ?thesis by (auto simp: validate_channel_def)
  next
    case False
    then show ?thesis by (auto simp: validate_channel_def)
  qed
qed

text \<open>
  Claim C7, as amended. On a connected client: \<^verbatim>\<open>publish\<close> to a channel that does not start
  with the tenant's prefix, and \<^verbatim>\<open>unsubscribe\<close> of a list that holds such a channel, raise
  the tenant isolation error (naming the first such channel) and return the client
  unchanged, so nothing is sent and the subscriptions are as before. \<^verbatim>\<open>subscribe\<close> of
  such a list does the same as long as the requested channels and the subscriptions held
  do not exceed the maximum together; when they do, the limit is checked first and the
  error is the validation error, again with the client unchanged.
\<close>

theorem tenant_isolation:
  assumes conn: "connection_state c = CONNECTED"
  shows "(\<not> prefix (expected_prefix c) channel \<longrightarrow>
            publish channel event_type p correlation_id popts io c
              = (Some (AxonPulsTenantIsolationError,
                       ChannelNotInOrganization channel (expected_prefix c)), c))
    \<and> ((\<exists>ch\<in>set channels. \<not> prefix (expected_prefix c) ch) \<longrightarrow>
         (\<exists>ch\<in>set channels. \<not> prefix (expected_prefix c) ch
            \<and> unsubscribe channels io c
                = (Some (AxonPulsTenantIsolationError,
                         ChannelNotInOrganization ch (expected_prefix c)), c)
            \<and> subscribe channels sopts io c
                = (if length channels + fcard (subscriptions c) > MAX_CHANNELS
                   then (Some (AxonPulsValidationError, MaxChannelsExceeded MAX_CHANNELS), c)
                   else (Some (AxonPulsTenantIsolationError,
                               ChannelNotInOrganization ch (expected_prefix c)), c))))"
proof -
  have pub: "publish channel event_type p correlation_id popts io c
      = (Some (AxonPulsTenantIsolationError,
               ChannelNotInOrganization channel (expected_prefix c)), c)"
    if "\<not> prefix (expected_prefix c) channel"
    using conn that by (simp add: publish_def validate_channel_def)
  have lists: "\<exists>ch\<in>set channels. \<not> prefix (expected_prefix c) ch
      \<and> unsubscribe channels io c
          = (Some (AxonPulsTenantIsolationError,
                   ChannelNotInOrganization ch (expected_prefix c)), c)
      \<and> subscribe channels sopts io c
          = (if length channels + fcard (subscriptions c) > MAX_CHANNELS
             then (Some (AxonPulsValidationError, MaxChannelsExceeded MAX_CHANNELS), c)
             else (Some (AxonPulsTenantIsolationError,
                         ChannelNotInOrganization ch (expected_prefix c)), c))"
    if "\<exists>ch\<in>set channels. \<not> prefix (expected_prefix c) ch"
  proof -
    from validate_channels_bad [OF that] obtain ch where
      ch: "ch \<in> set channels" "\<not> prefix (expected_prefix c) ch"
      "validate_channels c channels
         = Some (AxonPulsTenantIsolationError, ChannelNotInOrganization ch (expected_prefix c))"
      by blast
    have "unsubscribe channels io c
        = (Some (AxonPulsTenantIsolationError,
                 ChannelNotInOrganization ch (expected_prefix c)), c)"
      using conn ch(3) by (simp add: unsubscribe_def)
    moreover have "subscribe channels sopts io c
        = (if length channels + fcard (subscriptions c) > MAX_CHANNELS
           then (Some (AxonPulsValidationError, MaxChannelsExceeded MAX_CHANNELS), c)
           else (Some (AxonPulsTenantIsolationError,
                       ChannelNotInOrganization ch (expected_prefix c)), c))"
      using conn ch(3) by (simp add: subscribe_def)
    ultimately show ?thesis using ch(1,2) by blast
  qed
  show ?thesis using pub lists by blast
qed

theorem tenant_isolation_witness:
  "connection_state connected_client = CONNECTED
   \<and> \<not> prefix (expected_prefix connected_client) ''org:other:news''
   \<and> publish ''org:other:news'' ''created'' (Payload ''{}'') None None Succeeds connected_client
       = (Some (AxonPulsTenantIsolationError,
                ChannelNotInOrganization ''org:other:news'' ''org:acme:''), connected_client)
   \<and> unsubscribe [''org:acme:news'', ''org:other:news''] Succeeds connected_client
       = (Some (AxonPulsTenantIsolationError,
                ChannelNotInOrganization ''org:other:news'' ''org:acme:''), connected_client)
   \<and> subscribe [''org:acme:news'', ''org:other:news''] None Succeeds connected_client
       = (Some (AxonPulsTenantIsolationError,
                ChannelNotInOrganization ''org:other:news'' ''org:acme:''), connected_client)"
proof -
  have conn: "connection_state connected_client = CONNECTED"
    by (simp add: connected_client_eq)
  have bad: "\<not> prefix (expected_prefix connected_client) ''org:other:news''"
    by (simp add: connected_client_prefix)
  have bads: "\<exists>ch\<in>set [''org:acme:news'', ''org:other:news''].
      \<not> prefix (expected_prefix connected_client) ch"
    by (simp add: connected_client_prefix)
  have only: "ch = ''org:other:news''"
    if "ch \<in> set [''org:acme:news'', ''org:other:news'']"
      "\<not> prefix (expected_prefix connected_client) ch" for ch
    using that by (auto simp: connected_client_prefix)
  have few: "\<not> length [''org:acme:news'', ''org:other:news'']
      + fcard (subscriptions connected_client) > MAX_CHANNELS"
    by (simp add: connected_client_eq MAX_CHANNELS_def fcard_fempty)
  note t = tenant_isolation [OF conn, of "''org:other:news''" "''created''" "Payload ''{}''"
      None None Succeeds "[''org:acme:news'', ''org:other:news'']" None]
  from t bad have 1: "publish ''org:other:news'' ''created'' (Payload ''{}'') None None Succeeds
      connected_client
       = (Some (AxonPulsTenantIsolationError,
                ChannelNotInOrganization ''org:other:news'' ''org:acme:''), connected_client)"
    by (simp add: connected_client_prefix)
  from t bads obtain ch where ch: "ch \<in> set [''org:acme:news'', ''org:other:news'']"
    "\<not> prefix (expected_prefix connected_client) ch"
    "unsubscribe [''org:acme:news'', ''org:other:news''] Succeeds connected_client
       = (Some (AxonPulsTenantIsolationError,
                ChannelNotInOrganization ch (expected_prefix connected_client)), connected_client)"
    "subscribe [''org:acme:news'', ''org:other:news''] None Succeeds connected_client
       = (if length [''org:acme:news'', ''org:other:news'']
             + fcard (subscriptions connected_client) > MAX_CHANNELS
          then (Some (AxonPulsValidationError, MaxChannelsExceeded MAX_CHANNELS),
                connected_client)
          else (Some (AxonPulsTenantIsolationError,
                      ChannelNotInOrganization ch (expected_prefix connected_client)),
                connected_client))"
    by blast
  from only [OF ch(1,2)] ch(3,4) few 1 conn bad show ?thesis
    by (simp add: connected_client_prefix)
qed

text \<open>
  The claim as stated fails: 201 channels of another tenant, subscribed on a connected
  client that holds no subscription, raise the validation error of the channel limit and
  not the tenant isolation error.
\<close>

theorem tenant_isolation_counterexample:
  "connection_state connected_client = CONNECTED
   \<and> ''org:other:news'' \<in> set (replicate 201 ''org:other:news'')
   \<and> \<not> prefix (expected_prefix connected_client) ''org:other:news''
   \<and> subscribe (replicate 201 ''org:other:news'') None Succeeds connected_client
       = (Some (AxonPulsValidationError, MaxChannelsExceeded 200), connected_client)"
  by (simp add: connected_client_prefix)
     (simp add: connected_client_eq subscribe_def MAX_CHANNELS_def)

subsection \<open>Liveness\<close>

lemma cancel_task_kinds: "map fst (tasks (cancel_task i c)) = map fst (tasks c)"
  by (simp add: cancel_task_def map_update list_update_same_conv)

lemma cancel_task_frame:
  "connection_state (cancel_task i c) = connection_state c"
  "effects (cancel_task i c) = effects c"
  "websocket (cancel_task i c) = websocket c"
  "config (cancel_task i c) = config c"
  "heartbeat_task (cancel_task i c) = heartbeat_task c"
  "reconnect_task (cancel_task i c) = reconnect_task c"
  "http_session (cancel_task i c) = http_session c"
  by (simp_all add: cancel_task_def)

lemma disconnect_props:
  "connection_state (disconnect c) = DISCONNECTED"
  "websocket (disconnect c) = False"
  "config (disconnect c) = config c"
  "effects (disconnect c) = effects c @ (if websocket c then [WsClose] else [])"
  "map fst (tasks (disconnect c)) = map fst (tasks c)"
  by (simp_all add: disconnect_def Let_def cancel_task_frame cancel_task_kinds
      split: option.splits)

lemma start_reconnect_props:
  "connection_state (start_reconnect c) = connection_state c"
  "websocket (start_reconnect c) = websocket c"
  "effects (start_reconnect c) = effects c"
  "tasks (start_reconnect c)
     = tasks c @ (if auto_reconnect (config c) then [(ReconnectTask, Scheduled)] else [])"
  "auto_reconnect (config c) \<Longrightarrow> reconnect_task (start_reconnect c) = Some (length (tasks c))"
  by (simp_all add: start_reconnect_def create_task_def)

lemma cancel_task_tasks:
  "length (tasks (cancel_task j c)) = length (tasks c)"
  "i < length (tasks c) \<Longrightarrow>
   tasks (cancel_task j c) ! i
     = (fst (tasks c ! i), if j = i then Cancelled else snd (tasks c ! i))"
  by (simp_all add: cancel_task_def nth_list_update)

lemma disconnect_tasks:
  "length (tasks (disconnect c)) = length (tasks c)"
  "i < length (tasks c) \<Longrightarrow>
   tasks (disconnect c) ! i
     = (fst (tasks c ! i),
        if heartbeat_task c = Some i \<or> reconnect_task c = Some i then Cancelled
        else snd (tasks c ! i))"
  by (auto simp: disconnect_def Let_def cancel_task_tasks cancel_task_frame
      split: option.splits)

lemma disconnect_handles:
  "heartbeat_task (disconnect c) = heartbeat_task c"
  "reconnect_task (disconnect c) = reconnect_task c"
  "http_session (disconnect c) = False"
  by (simp_all add: disconnect_def Let_def cancel_task_frame split: option.splits)

lemma pong_overdue_seconds:
  assumes "heartbeat_interval (config c) = Some i" and "0 < i"
  shows "pong_overdue now c
     \<longleftrightarrow> real_of_int (now - last_pong_time c) / 1000000 > 2.5 * real_of_int i"
proof -
  have h: "heartbeat_interval_or_default c = i"
    using assms by (simp add: heartbeat_interval_or_default_def)
  have "real_of_int (now - last_pong_time c) / 1000000 > 2.5 * real_of_int i
     \<longleftrightarrow> real_of_int (2 * (now - last_pong_time c)) > real_of_int (5 * i * 1000000)"
    by (simp add: field_simps) linarith
  also have "\<dots> \<longleftrightarrow> 2 * (now - last_pong_time c) > 5 * i * 1000000"
    by (rule of_int_less_iff)
  finally show ?thesis by (simp add: pong_overdue_def h)
qed

lemma two_quiet_ticks:
  "heartbeat_loop (quiet_tick 30000000 # quiet_tick 60000000 # ticks) heartbeat_client
     = heartbeat_loop ticks
         (heartbeat_client\<lparr>effects := [WsConnect, WsSend PingMessage, WsSend PingMessage]\<rparr>)"
  by (simp add: heartbeat_client_eq quiet_tick_def heartbeat_iteration_def pong_overdue_def
      heartbeat_interval_or_default_def send_message_def Let_def del: heartbeat_loop.simps)
     (simp add: heartbeat_iteration_def pong_overdue_def heartbeat_interval_or_default_def
      send_message_def Let_def)

text \<open>
  Claim C8, as amended. Take a turn of the heartbeat loop, still running, of a connected
  client with a heartbeat interval \<open>i > 0\<close> configured: the client is still connected when
  the task wakes, and more than \<open>2.5 * i\<close> seconds have passed since the last pong. Then
  the loop ends in this turn, whatever turns the environment would offer later, and it
  sends no ping; the client is disconnected and its socket closed. Of the tasks there
  were, the ones held in \<^verbatim>\<open>_heartbeat_task\<close> and \<^verbatim>\<open>_reconnect_task\<close> are cancelled and the
  others are as before; and the loop creates exactly one task when auto-reconnect is on,
  a reconnection task that is then held in \<^verbatim>\<open>_reconnect_task\<close>, and none when it is off.
\<close>

theorem liveness_timeout:
  assumes entry: "connection_state c0 = CONNECTED"
    and slept: "c = during_sleep t c0"
    and conn: "connection_state c = CONNECTED"
    and cfg: "heartbeat_interval (config c) = Some i" and pos: "0 < i"
    and late: "real_of_int (tick_time t - last_pong_time c) / 1000000 > 2.5 * real_of_int i"
  shows "\<exists>c'. heartbeat_loop (t # ticks) c0 = Some c'
      \<and> heartbeat_iteration (tick_time t) (ping_io t) c = (Finish, c')
      \<and> connection_state c' = DISCONNECTED
      \<and> websocket c' = False
      \<and> effects c' = effects c @ (if websocket c then [WsClose] else [])
      \<and> map fst (tasks c')
          = map fst (tasks c) @ (if auto_reconnect (config c) then [ReconnectTask] else [])
      \<and> (\<forall>j<length (tasks c).
            tasks c' ! j
              = (fst (tasks c ! j),
                 if heartbeat_task c = Some j \<or> reconnect_task c = Some j then Cancelled
                 else snd (tasks c ! j)))
      \<and> (auto_reconnect (config c) \<longrightarrow>
            reconnect_task c' = Some (length (tasks c))
          \<and> tasks c' ! length (tasks c) = (ReconnectTask, Scheduled))
      \<and> (\<not> auto_reconnect (config c) \<longrightarrow> reconnect_task c' = reconnect_task c)"
proof -
  let ?c' = "start_reconnect (disconnect c)"
  have over: "pong_overdue (tick_time t) c"
    using late pong_overdue_seconds [OF cfg pos] by simp
  have it: "heartbeat_iteration (tick_time t) (ping_io t) c = (Finish, ?c')"
    using conn over by (simp add: heartbeat_iteration_def)
  have loop: "heartbeat_loop (t # ticks) c0 = Some ?c'"
    using entry it slept by simp
  have len: "length (tasks (disconnect c)) = length (tasks c)"
    by (rule disconnect_tasks)
  have tk: "tasks ?c' = tasks (disconnect c)
      @ (if auto_reconnect (config c) then [(ReconnectTask, Scheduled)] else [])"
    by (simp add: start_reconnect_props disconnect_props)
  have kinds: "map fst (tasks ?c')
      = map fst (tasks c) @ (if auto_reconnect (config c) then [ReconnectTask] else [])"
    by (simp add: tk disconnect_props)
  have old: "tasks ?c' ! j
      = (fst (tasks c ! j),
         if heartbeat_task c = Some j \<or> reconnect_task c = Some j then Cancelled
         else snd (tasks c ! j))"
    if "j < length (tasks c)" for j
    using that len disconnect_tasks(2) [OF that] by (simp add: tk nth_append)
  have new: "reconnect_task ?c' = Some (length (tasks c))
      \<and> tasks ?c' ! length (tasks c) = (ReconnectTask, Scheduled)"
    if "auto_reconnect (config c)"
    using that len by (simp add: tk start_reconnect_props disconnect_props nth_append)
  have none: "reconnect_task ?c' = reconnect_task c" if "\<not> auto_reconnect (config c)"
    using that by (simp add: start_reconnect_def disconnect_props disconnect_handles)
  have frame: "connection_state ?c' = DISCONNECTED" "websocket ?c' = False"
    "effects ?c' = effects c @ (if websocket c then [WsClose] else [])"
    by (simp_all add: start_reconnect_props disconnect_props)
  show ?thesis
    using loop it kinds old new none frame by (intro exI [of _ ?c']) blast
qed

theorem liveness_timeout_witness:
  "connection_state (heartbeat_client\<lparr>effects := [WsConnect, WsSend PingMessage,
       WsSend PingMessage]\<rparr>) = CONNECTED
   \<and> heartbeat_interval (config (heartbeat_client\<lparr>effects := [WsConnect, WsSend PingMessage,
       WsSend PingMessage]\<rparr>)) = Some 30 \<and> (0::int) < 30
   \<and> real_of_int (tick_time (quiet_tick 90000000)
         - last_pong_time (heartbeat_client\<lparr>effects := [WsConnect, WsSend PingMessage,
             WsSend PingMessage]\<rparr>)) / 1000000
        > 2.5 * real_of_int 30
   \<and> (\<exists>c'. heartbeat_loop [quiet_tick 30000000, quiet_tick 60000000, quiet_tick 90000000,
                             quiet_tick 120000000] heartbeat_client = Some c'
          \<and> connection_state c' = DISCONNECTED
          \<and> websocket c' = False
          \<and> effects c' = [WsConnect, WsSend PingMessage, WsSend PingMessage, WsClose]
          \<and> map fst (tasks c') = [MessageHandlerTask, HeartbeatTask, ReconnectTask]
          \<and> tasks c' ! 0 = (MessageHandlerTask, Scheduled)
          \<and> tasks c' ! 1 = (HeartbeatTask, Cancelled)
          \<and> tasks c' ! 2 = (ReconnectTask, Scheduled)
          \<and> reconnect_task c' = Some 2)"
proof -
  let ?c = "heartbeat_client\<lparr>effects := [WsConnect, WsSend PingMessage, WsSend PingMessage]\<rparr>"
  let ?t = "quiet_tick 90000000"
  have conn: "connection_state ?c = CONNECTED"
    by (simp add: heartbeat_client_eq)
  have slept: "?c = during_sleep ?t ?c"
    by (simp add: quiet_tick_def)
  have cfg: "heartbeat_interval (config ?c) = Some 30"
    by (simp add: heartbeat_client_eq)
  have pos: "(0::int) < 30" by simp
  have late: "real_of_int (tick_time ?t - last_pong_time ?c) / 1000000 > 2.5 * real_of_int 30"
    by (simp add: quiet_tick_def heartbeat_client_eq)
  have auto: "auto_reconnect (config ?c)"
    and ws: "websocket ?c"
    and eff: "effects ?c = [WsConnect, WsSend PingMessage, WsSend PingMessage]"
    and tk: "tasks ?c = [(MessageHandlerTask, Scheduled), (HeartbeatTask, Scheduled)]"
    and hb: "heartbeat_task ?c = Some 1"
    and rc: "reconnect_task ?c = None"
    by (simp_all add: heartbeat_client_eq example_config_def)
  from liveness_timeout [OF conn slept conn cfg pos late, of "[quiet_tick 120000000]"]
  obtain c' where c': "heartbeat_loop [?t, quiet_tick 120000000] ?c = Some c'"
    "connection_state c' = DISCONNECTED"
    "websocket c' = False"
    "effects c' = effects ?c @ (if websocket ?c then [WsClose] else [])"
    "map fst (tasks c') = map fst (tasks ?c)
       @ (if auto_reconnect (config ?c) then [ReconnectTask] else [])"
    "\<forall>j<length (tasks ?c).
       tasks c' ! j
         = (fst (tasks ?c ! j),
            if heartbeat_task ?c = Some j \<or> reconnect_task ?c = Some j then Cancelled
            else snd (tasks ?c ! j))"
    "auto_reconnect (config ?c) \<longrightarrow>
       reconnect_task c' = Some (length (tasks ?c))
       \<and> tasks c' ! length (tasks ?c) = (ReconnectTask, Scheduled)"
    by blast
  from c'(1) have loop: "heartbeat_loop [quiet_tick 30000000, quiet_tick 60000000, ?t,
      quiet_tick 120000000] heartbeat_client = Some c'"
    by (simp only: two_quiet_ticks)
  from c'(4,5,7) auto ws
  have new: "effects c' = [WsConnect, WsSend PingMessage, WsSend PingMessage, WsClose]"
    "map fst (tasks c') = [MessageHandlerTask, HeartbeatTask, ReconnectTask]"
    "reconnect_task c' = Some 2" "tasks c' ! 2 = (ReconnectTask, Scheduled)"
    unfolding eff tk by (simp_all add: numeral_2_eq_2)
  from c'(6) have "tasks c' ! 0
      = (fst (tasks ?c ! 0),
         if heartbeat_task ?c = Some 0 \<or> reconnect_task ?c = Some 0 then Cancelled
         else snd (tasks ?c ! 0))"
    unfolding tk by simp
  then have t0: "tasks c' ! 0 = (MessageHandlerTask, Scheduled)"
    unfolding tk hb rc by simp
  from c'(6) have "tasks c' ! 1
      = (fst (tasks ?c ! 1),
         if heartbeat_task ?c = Some 1 \<or> reconnect_task ?c = Some 1 then Cancelled
         else snd (tasks ?c ! 1))"
    unfolding tk by simp
  then have t1: "tasks c' ! 1 = (HeartbeatTask, Cancelled)"
    unfolding tk hb rc by simp
  from loop c'(2,3) new t0 t1
  have "\<exists>c'. heartbeat_loop [quiet_tick 30000000, quiet_tick 60000000, ?t,
                             quiet_tick 120000000] heartbeat_client = Some c'
          \<and> connection_state c' = DISCONNECTED
          \<and> websocket c' = False
          \<and> effects c' = [WsConnect, WsSend PingMessage, WsSend PingMessage, WsClose]
          \<and> map fst (tasks c') = [MessageHandlerTask, HeartbeatTask, ReconnectTask]
          \<and> tasks c' ! 0 = (MessageHandlerTask, Scheduled)
          \<and> tasks c' ! 1 = (HeartbeatTask, Cancelled)
          \<and> tasks c' ! 2 = (ReconnectTask, Scheduled)
          \<and> reconnect_task c' = Some 2"
    by (intro exI [of _ c'] conjI)
  with conn cfg pos late show ?thesis by (intro conjI)
qed

text \<open>
  The claim as stated fails. A heartbeat loop whose ping cannot be sent ends at once,
  by the \<^verbatim>\<open>break\<close> of its exception handler, and leaves the client connected: when 90
  seconds have passed without a pong, with an interval of 30 seconds, no loop is left to
  notice, the client is still connected and no reconnection task exists. And where the
  loop does declare the connection dead, its reconnection task need not be the only one:
  \<^verbatim>\<open>disconnect()\<close> does not stop the read loop, which sees the connection close next and
  starts a reconnection task of its own.
\<close>

theorem liveness_timeout_counterexample:
  "heartbeat_loop [failed_ping_tick 30000000, quiet_tick 60000000, quiet_tick 90000000]
       heartbeat_client
     = Some (heartbeat_client\<lparr>effects := [WsConnect, WsSend PingMessage],
          circuit_breaker := \<lparr>failure_threshold = 5, timeout_seconds = 60, failure_count = 1,
            state = CLOSED, last_failure_time = Some 30000000\<rparr>\<rparr>)
   \<and> connection_state heartbeat_client = CONNECTED
   \<and> heartbeat_interval (config heartbeat_client) = Some 30
   \<and> tasks heartbeat_client = [(MessageHandlerTask, Scheduled), (HeartbeatTask, Scheduled)]
   \<and> reconnect_task heartbeat_client = None
   \<and> real_of_int (90000000 - last_pong_time heartbeat_client) / 1000000 > 2.5 * real_of_int 30
   \<and> tasks (run [Step_heartbeat 90000000 Succeeds, Step_message_handler_ends ConnectionClosed]
        (heartbeat_client\<lparr>effects := [WsConnect, WsSend PingMessage, WsSend PingMessage]\<rparr>))
       = [(MessageHandlerTask, Scheduled), (HeartbeatTask, Cancelled),
          (ReconnectTask, Scheduled), (ReconnectTask, Scheduled)]"
proof -
  have a: "heartbeat_loop [failed_ping_tick 30000000, quiet_tick 60000000, quiet_tick 90000000]
       heartbeat_client
     = Some (heartbeat_client\<lparr>effects := [WsConnect, WsSend PingMessage],
          circuit_breaker := \<lparr>failure_threshold = 5, timeout_seconds = 60, failure_count = 1,
            state = CLOSED, last_failure_time = Some 30000000\<rparr>\<rparr>)"
    by (simp add: heartbeat_client_eq failed_ping_tick_def heartbeat_iteration_def
        pong_overdue_def heartbeat_interval_or_default_def send_message_def record_failure_def
        default_CircuitBreaker_def new_CircuitBreaker_def Let_def)
  have b: "connection_state heartbeat_client = CONNECTED"
    "heartbeat_interval (config heartbeat_client) = Some 30"
    "tasks heartbeat_client = [(MessageHandlerTask, Scheduled), (HeartbeatTask, Scheduled)]"
    "reconnect_task heartbeat_client = None"
    "real_of_int (90000000 - last_pong_time heartbeat_client) / 1000000 > 2.5 * real_of_int 30"
    by (simp_all add: heartbeat_client_eq)
  have c: "tasks (run [Step_heartbeat 90000000 Succeeds,
         Step_message_handler_ends ConnectionClosed]
        (heartbeat_client\<lparr>effects := [WsConnect, WsSend PingMessage, WsSend PingMessage]\<rparr>))
       = [(MessageHandlerTask, Scheduled), (HeartbeatTask, Cancelled),
          (ReconnectTask, Scheduled), (ReconnectTask, Scheduled)]"
    by (simp add: heartbeat_client_eq heartbeat_iteration_def pong_overdue_def
        heartbeat_interval_or_default_def disconnect_def cancel_task_def start_reconnect_def
        create_task_def message_handler_ends_def example_config_def Let_def)
  from a b c show ?thesis by (intro conjI)
qed

subsection \<open>Concurrent reconnection loops\<close>

text \<open>
  Claim C9 fails on the code. The read loop of a connected, subscribed client sees the
  connection close and starts a reconnection task (task 1). In its first pass that task
  connects, which starts a new read loop (task 2), and cannot send its subscribe request:
  the exception is caught, and as the attempt counter is below the maximum the loop goes
  on. The new read loop then sees the connection close and starts a second reconnection
  task (task 3) while task 1 is still looping. \<^verbatim>\<open>_reconnect_task\<close> now holds task 3 only, so
  a \<^verbatim>\<open>disconnect()\<close> cancels task 3 and leaves task 1 running.
\<close>

theorem second_reconnect_loop:
  "tasks (message_handler_ends ConnectionClosed subscribed_client)
     = [(MessageHandlerTask, Scheduled), (ReconnectTask, Scheduled)]
   \<and> fst (reconnect_iteration dropped_after_connect
          (message_handler_ends ConnectionClosed subscribed_client)) = Continue
   \<and> int (reconnect_attempt (snd (reconnect_iteration dropped_after_connect
          (message_handler_ends ConnectionClosed subscribed_client))))
       < max_retries (snd (reconnect_iteration dropped_after_connect
          (message_handler_ends ConnectionClosed subscribed_client)))
   \<and> tasks (message_handler_ends ConnectionClosed
         (snd (reconnect_iteration dropped_after_connect
           (message_handler_ends ConnectionClosed subscribed_client))))
       = [(MessageHandlerTask, Scheduled), (ReconnectTask, Scheduled),
          (MessageHandlerTask, Scheduled), (ReconnectTask, Scheduled)]
   \<and> tasks (disconnect (message_handler_ends ConnectionClosed
         (snd (reconnect_iteration dropped_after_connect
           (message_handler_ends ConnectionClosed subscribed_client)))))
       = [(MessageHandlerTask, Scheduled), (ReconnectTask, Scheduled),
          (MessageHandlerTask, Scheduled), (ReconnectTask, Cancelled)]"
  unfolding first_pass
  by (simp add: first_closure)
     (simp add: message_handler_ends_def start_reconnect_def create_task_def
      subscribed_client_eq example_config_def max_retries_def disconnect_def cancel_task_def
      Let_def)

subsection \<open>Construction and the tenant identifier\<close>

lemma org_id_create_task: "org_id (snd (create_task k c)) = org_id c"
  by (simp add: create_task_def)

lemma org_id_cancel_task: "org_id (cancel_task i c) = org_id c"
  by (simp add: cancel_task_def)

lemma org_id_send_message: "org_id (snd (send_message m io c)) = org_id c"
  by (simp add: send_message_def Let_def split: io_result.splits)

lemma org_id_connect: "org_id (snd (connect now io c)) = org_id c"
  by (simp add: connect_def create_task_def Let_def split: prod.splits io_result.splits)

lemma org_id_disconnect: "org_id (disconnect c) = org_id c"
  by (simp add: disconnect_def cancel_task_def Let_def split: option.splits)

lemma org_id_subscribe: "org_id (snd (subscribe channels options io c)) = org_id c"
  using org_id_send_message [of "SubscribeMessage channels options" io c]
  by (auto simp: subscribe_def split: option.splits prod.splits)

lemma org_id_unsubscribe: "org_id (snd (unsubscribe channels io c)) = org_id c"
  using org_id_send_message [of "UnsubscribeMessage channels" io c]
  by (auto simp: unsubscribe_def split: option.splits prod.splits)

lemma org_id_publish:
  "org_id (snd (publish channel event_type p correlation_id options io c)) = org_id c"
  by (simp add: publish_def org_id_send_message split: option.splits)

lemma org_id_replay:
  "org_id (snd (replay channel since_id count io c)) = org_id c"
  by (simp add: replay_def org_id_send_message split: option.splits)

lemma org_id_handle_message: "org_id (handle_message m now c) = org_id c"
  by (simp add: handle_message_def split: inbound.splits)

lemma org_id_start_reconnect: "org_id (start_reconnect c) = org_id c"
  by (simp add: start_reconnect_def create_task_def)

lemma org_id_message_handler_ends: "org_id (message_handler_ends r c) = org_id c"
  by (simp add: message_handler_ends_def org_id_start_reconnect split: read_end.splits)

lemma org_id_heartbeat_iteration: "org_id (snd (heartbeat_iteration now io c)) = org_id c"
  using org_id_send_message [of PingMessage io c]
  by (auto simp: heartbeat_iteration_def org_id_start_reconnect org_id_disconnect
      split: option.splits prod.splits)

lemma org_id_reconnect_iteration: "org_id (snd (reconnect_iteration env c)) = org_id c"
proof -
  let ?c1 = "c\<lparr>reconnect_attempt := reconnect_attempt c + 1\<rparr>"
  let ?r = "connect (connect_time env) (connect_io env) ?c1"
  have 1: "org_id (snd ?r) = org_id c"
    using org_id_connect [of "connect_time env" "connect_io env" ?c1] by simp
  have 2: "org_id (snd (subscribe chs None (subscribe_io env) (snd ?r))) = org_id c" for chs
    using 1 by (simp add: org_id_subscribe)
  show ?thesis
    using 1 2 [of "sorted_list_of_fset (subscriptions (snd ?r))"]
    by (auto simp: reconnect_iteration_def Let_def split: option.splits prod.splits)
qed

lemma org_id_step: "org_id (step x c) = org_id c"
  by (cases x)
     (simp_all add: org_id_connect org_id_disconnect org_id_subscribe org_id_unsubscribe
       org_id_publish org_id_replay org_id_handle_message org_id_message_handler_ends
       org_id_heartbeat_iteration org_id_reconnect_iteration)

lemma org_id_run: "org_id (run calls c) = org_id c"
  by (induction calls arbitrary: c) (simp_all add: org_id_step)

text \<open>
  Claim C10. When the token cannot be decoded, or its claims hold no
  \<^verbatim>\<open>organizationId\<close>, the constructor raises the validation error and yields no client.
  Every client it does yield has a tenant identifier that is not empty, the one extracted
  from the token, and no sequence of calls and task steps changes it.
\<close>

theorem construction_guard:
  "((jwt_decode (token cfg) = None
      \<or> (\<exists>claims. jwt_decode (token cfg) = Some claims \<and> claims ''organizationId'' = None))
     \<longrightarrow> new_AxonPulsClient jwt_decode now cfg
          = Inl (AxonPulsValidationError, MissingOrganizationId))
   \<and> (\<forall>c. new_AxonPulsClient jwt_decode now cfg = Inr c \<longrightarrow>
          org_id c \<noteq> []
        \<and> extract_org_id_from_token jwt_decode (token cfg) = Some (org_id c)
        \<and> (\<forall>calls. org_id (run calls c) = org_id c))"
  by (auto simp: new_AxonPulsClient_def extract_org_id_from_token_def org_id_run
      split: option.splits if_splits)

theorem construction_guard_witness:
  "example_jwt_decode (token (example_config\<lparr>token := ''garbage''\<rparr>)) = None
   \<and> new_AxonPulsClient example_jwt_decode 0 (example_config\<lparr>token := ''garbage''\<rparr>)
       = Inl (AxonPulsValidationError, MissingOrganizationId)
   \<and> new_AxonPulsClient example_jwt_decode 0 (example_config\<lparr>token := ''anonymous''\<rparr>)
       = Inl (AxonPulsValidationError, MissingOrganizationId)
   \<and> new_AxonPulsClient example_jwt_decode 0 example_config = Inr example_client
   \<and> org_id example_client \<noteq> []
   \<and> org_id (run [Call_connect 0 Succeeds,
                  Call_subscribe [''org:acme:news''] None Succeeds,
                  Step_message_handler_ends ConnectionClosed,
                  Call_disconnect] example_client) = ''acme''"
proof -
  have u: "example_jwt_decode (token (example_config\<lparr>token := ''garbage''\<rparr>)) = None"
    by (simp add: example_jwt_decode_def)
  have a: "\<exists>claims. example_jwt_decode (token (example_config\<lparr>token := ''anonymous''\<rparr>))
      = Some claims \<and> claims ''organizationId'' = None"
    by (simp add: example_jwt_decode_def)
  have ok: "new_AxonPulsClient example_jwt_decode 0 example_config = Inr example_client"
    by (simp add: new_AxonPulsClient_def extract_org_id_from_token_def example_jwt_decode_def
        example_config_def example_client_def)
  have o: "org_id example_client = ''acme''"
    by (simp add: example_client_def)
  note g = construction_guard [of example_jwt_decode "example_config\<lparr>token := ''garbage''\<rparr>" 0]
  note n = construction_guard [of example_jwt_decode "example_config\<lparr>token := ''anonymous''\<rparr>" 0]
  note s = construction_guard [of example_jwt_decode example_config 0]
  from g u have 1: "new_AxonPulsClient example_jwt_decode 0 (example_config\<lparr>token := ''garbage''\<rparr>)
       = Inl (AxonPulsValidationError, MissingOrganizationId)"
    by blast
  from n a have 2: "new_AxonPulsClient example_jwt_decode 0 (example_config\<lparr>token := ''anonymous''\<rparr>)
       = Inl (AxonPulsValidationError, MissingOrganizationId)"
    by blast
  from s ok have 3: "org_id example_client \<noteq> []"
    and 4: "\<forall>calls. org_id (run calls example_client) = org_id example_client"
    by blast+
  from 4 o have 5: "org_id (run [Call_connect 0 Succeeds,
                  Call_subscribe [''org:acme:news''] None Succeeds,
                  Step_message_handler_ends ConnectionClosed,
                  Call_disconnect] example_client) = ''acme''"
    by (simp only:)
  from u 1 2 ok 3 5 show ?thesis by blast
qed

end
